theory Spec2Isabelle
  imports Main "HOL-Library.AList" "HOL-Library.Char_ord" "HOL-Library.List_Lexorder"
begin

section \<open>Values of the host language\<close>

text \<open>
  The relay of \<^verbatim>\<open>src/lib/socket.js\<close> handles dynamically typed event payloads.
  A payload is a value of the host language: \<^verbatim>\<open>undefined\<close>, \<^verbatim>\<open>null\<close>, a Boolean,
  a string, a \<^verbatim>\<open>Date\<close> object (its time value in milliseconds and the text its
  \<^verbatim>\<open>toString()\<close> gives, which depends on the time zone of the host), an array, or a
  plain object given by its own properties in order, as the parser of the transport
  builds it. Numbers do not occur in what is modelled, except for the clock reading
  that \<^verbatim>\<open>sendMessage\<close> turns into a string. Strings are lists of code units; the
  order on them (\<open>List_Lexorder\<close> over \<open>Char_ord\<close>) is the code-unit-wise
  lexicographic order that the default comparison of \<^verbatim>\<open>Array.prototype.sort\<close> uses.
\<close>

datatype jsval =
    JUndefined
  | JNull
  | JBool bool
  | JStr string
  | JDate nat string
  | JArr "jsval list"
  | JObj "(string \<times> jsval) list"

datatype error = TypeError

text \<open>Truthiness, as tested by \<^verbatim>\<open>if (v)\<close>, \<^verbatim>\<open>v || d\<close> and \<^verbatim>\<open>v && w\<close>.\<close>

fun truthy :: "jsval \<Rightarrow> bool" where
  "truthy JUndefined = False"
| "truthy JNull = False"
| "truthy (JBool b) = b"
| "truthy (JStr s) = (s \<noteq> [])"
| "truthy (JDate t s) = True"
| "truthy (JArr xs) = True"
| "truthy (JObj fs) = True"

text \<open>\<^verbatim>\<open>a || b\<close>: the left operand when it is truthy, the right one otherwise.\<close>

definition js_or :: "jsval \<Rightarrow> jsval \<Rightarrow> jsval" where
  "js_or a b = (if truthy a then a else b)"

text \<open>
  Reading a property of \<^verbatim>\<open>undefined\<close> or \<^verbatim>\<open>null\<close> throws a \<^verbatim>\<open>TypeError\<close>; on
  every other value the read succeeds, and a property the value does not have reads
  as \<^verbatim>\<open>undefined\<close>. The handlers read the properties of a payload by the names
  of its fields, none of which is a member that a string, an array, a date or the
  prototype of an object has by itself.
\<close>

definition nullish :: "jsval \<Rightarrow> bool" where
  "nullish v = (v = JUndefined \<or> v = JNull)"

definition property :: "jsval \<Rightarrow> string \<Rightarrow> jsval" where
  "property v k =
     (case v of
        JObj fs \<Rightarrow> (case map_of fs k of Some x \<Rightarrow> x | None \<Rightarrow> JUndefined)
      | _ \<Rightarrow> JUndefined)"

text \<open>Joining strings with a separator, the core of \<^verbatim>\<open>Array.prototype.join\<close>.\<close>

fun join_strings :: "string \<Rightarrow> string list \<Rightarrow> string" where
  "join_strings sep [] = []"
| "join_strings sep [s] = s"
| "join_strings sep (s # t # ss) = s @ sep @ join_strings sep (t # ss)"

text \<open>
  \<^verbatim>\<open>ToString\<close>, used where a value becomes a property key and where \<^verbatim>\<open>sort\<close>
  compares. A plain object is converted by the \<^verbatim>\<open>toString\<close> it finds: the inherited
  one gives \<^verbatim>\<open>[object Object]\<close>; a property \<^verbatim>\<open>toString\<close> of its own, which is data
  and cannot be called, leaves no conversion and a \<^verbatim>\<open>TypeError\<close> is thrown. An array
  is its elements joined by a comma; \<open>element_strings\<close> gives the strings of the
  elements as \<^verbatim>\<open>join\<close> takes them, the empty string for \<^verbatim>\<open>undefined\<close> and \<^verbatim>\<open>null\<close>.
\<close>

fun to_string :: "jsval \<Rightarrow> error + string"
  and element_strings :: "jsval list \<Rightarrow> error + string list" where
  "to_string JUndefined = Inr ''undefined''"
| "to_string JNull = Inr ''null''"
| "to_string (JBool b) = Inr (if b then ''true'' else ''false'')"
| "to_string (JStr s) = Inr s"
| "to_string (JDate t s) = Inr s"
| "to_string (JArr xs) =
     (case element_strings xs of Inl e \<Rightarrow> Inl e | Inr ss \<Rightarrow> Inr (join_strings '','' ss))"
| "to_string (JObj fs) =
     (if ''toString'' \<in> set (map fst fs) then Inl TypeError else Inr ''[object Object]'')"
| "element_strings [] = Inr []"
| "element_strings (x # xs) =
     (case (if x = JUndefined \<or> x = JNull then Inr [] else to_string x) of
        Inl e \<Rightarrow> Inl e
      | Inr s \<Rightarrow> (case element_strings xs of Inl e \<Rightarrow> Inl e | Inr ss \<Rightarrow> Inr (s # ss)))"

text \<open>\<^verbatim>\<open>xs.join(sep)\<close>.\<close>

definition join :: "string \<Rightarrow> jsval list \<Rightarrow> error + string" where
  "join sep xs =
     (case element_strings xs of Inl e \<Rightarrow> Inl e | Inr ss \<Rightarrow> Inr (join_strings sep ss))"

text \<open>
  \<^verbatim>\<open>[x, y].sort()\<close> with the default comparison: \<^verbatim>\<open>undefined\<close> goes last without
  being compared, any other two values are compared by their strings, and the sort
  is stable.
\<close>

definition sort2 :: "jsval \<Rightarrow> jsval \<Rightarrow> error + jsval list" where
  "sort2 x y =
     (if x = JUndefined then Inr [y, x]
      else if y = JUndefined then Inr [x, y]
      else case to_string x of
             Inl e \<Rightarrow> Inl e
           | Inr sx \<Rightarrow>
               (case to_string y of
                  Inl e \<Rightarrow> Inl e
                | Inr sy \<Rightarrow> Inr (if sy < sx then [y, x] else [x, y])))"

text \<open>
  The room key of a pair, \<^verbatim>\<open>[a, b].sort().join("-")\<close>, as every relay handler and
  every HTTP handler of expert messages derives it.
\<close>

definition roomId :: "jsval \<Rightarrow> jsval \<Rightarrow> error + string" where
  "roomId a b = (case sort2 a b of Inl e \<Rightarrow> Inl e | Inr xs \<Rightarrow> join ''-'' xs)"

text \<open>Decimal digits of a natural number, \<^verbatim>\<open>n.toString()\<close> for a clock reading.\<close>

fun show_nat :: "nat \<Rightarrow> string" where
  "show_nat n =
     (if n < 10 then [''0123456789'' ! n]
      else show_nat (n div 10) @ [''0123456789'' ! (n mod 10)])"

text \<open>The clock of the host: what \<^verbatim>\<open>new Date()\<close> gives when it is read.\<close>

record clock =
  getTime :: nat
  dateText :: string

definition newDate :: "clock \<Rightarrow> jsval" where
  "newDate c = JDate (getTime c) (dateText c)"

section \<open>The presence registry\<close>

text \<open>
  \<^verbatim>\<open>userSocketMap\<close> and \<^verbatim>\<open>expertSocketMap\<close> are plain objects used as dictionaries
  from an identity token to the identifier of a socket. Such an object has its own
  properties, here an association list in the order they were created, and it
  inherits the members of \<^verbatim>\<open>Object.prototype\<close>, whose names are listed below: eleven
  functions and the accessor \<^verbatim>\<open>__proto__\<close>.
\<close>

type_synonym socket_map = "(string \<times> string) list"

definition object_prototype_names :: "string list" where
  "object_prototype_names =
     [''constructor'', ''__defineGetter__'', ''__defineSetter__'', ''hasOwnProperty'',
      ''__lookupGetter__'', ''__lookupSetter__'', ''isPrototypeOf'', ''propertyIsEnumerable'',
      ''toString'', ''valueOf'', ''__proto__'', ''toLocaleString'']"

text \<open>
  What reading \<^verbatim>\<open>m[k]\<close> gives: the value of the own property \<open>k\<close>; else, for a name
  of the prototype, the inherited member (a function, or the prototype itself for
  \<^verbatim>\<open>__proto__\<close>), which is truthy and is no string; else \<^verbatim>\<open>undefined\<close>.
\<close>

datatype read = Undefined | Value string | Inherited string

definition read_member :: "socket_map \<Rightarrow> string \<Rightarrow> read" where
  "read_member m k =
     (case map_of m k of
        Some v \<Rightarrow> Value v
      | None \<Rightarrow> if k \<in> set object_prototype_names then Inherited k else Undefined)"

text \<open>
  The assignment \<^verbatim>\<open>m[k] = v\<close> of a string \<open>v\<close>: it sets the own property \<open>k\<close>, new
  properties coming last, except for a \<^verbatim>\<open>__proto__\<close> that is no own property, where
  the inherited setter runs, ignores a value that is no object, and leaves \<open>m\<close> as it
  was.
\<close>

definition assign :: "string \<Rightarrow> string \<Rightarrow> socket_map \<Rightarrow> socket_map" where
  "assign k v m =
     (if k = ''__proto__'' \<and> map_of m k = None then m else AList.update k v m)"

text \<open>
  \<^verbatim>\<open>Object.keys(m)\<close>: the own keys that are array indices (the decimal numerals below
  \<open>2\<^sup>3\<^sup>2 - 1\<close>, without a leading zero) in ascending order of their numbers, then
  the other keys in the order of their creation.
\<close>

definition is_digit :: "char \<Rightarrow> bool" where
  "is_digit c = (CHR ''0'' \<le> c \<and> c \<le> CHR ''9'')"

definition decimal :: "string \<Rightarrow> nat" where
  "decimal s = foldl (\<lambda>n c. 10 * n + (of_char c - 48)) 0 s"

definition is_array_index :: "string \<Rightarrow> bool" where
  "is_array_index s =
     (s \<noteq> [] \<and> list_all is_digit s \<and> (length s = 1 \<or> hd s \<noteq> CHR ''0'')
      \<and> decimal s < 4294967295)"

definition Object_keys :: "socket_map \<Rightarrow> string list" where
  "Object_keys m =
     sort_key decimal (filter is_array_index (map fst m))
     @ filter (\<lambda>k. \<not> is_array_index k) (map fst m)"

record relay_state =
  userSocketMap :: socket_map
  expertSocketMap :: socket_map

definition initial :: relay_state where
  "initial = \<lparr>userSocketMap = [], expertSocketMap = []\<rparr>"

definition getReceiverSocketId :: "relay_state \<Rightarrow> string \<Rightarrow> read" where
  "getReceiverSocketId st userId = read_member (userSocketMap st) userId"

definition getExpertSocketId :: "relay_state \<Rightarrow> string \<Rightarrow> read" where
  "getExpertSocketId st expertId = read_member (expertSocketMap st) expertId"

text \<open>
  What the relay asks of the transport: \<^verbatim>\<open>io.emit(event, payload)\<close> reaches every
  connection, \<^verbatim>\<open>io.to(room).emit(event, payload)\<close> the connections of one room. A
  room is named by a string: the transport puts each connection in the room named
  by its own identifier, so a connection handle addresses that connection, and
  \<^verbatim>\<open>joinRoom\<close> puts a connection in the room a client names. When the relay passes
  an inherited member of a registry as the room, the emission is addressed to a
  room that no connection is in.
\<close>

datatype target = Everyone | To string | ToInherited string

datatype emission = Emit (target_of: target) (event_of: string) (payload_of: jsval)

definition snapshot :: "socket_map \<Rightarrow> jsval" where
  "snapshot m = JArr (map JStr (Object_keys m))"

section \<open>Connection and disconnection\<close>

text \<open>
  A string that may be \<^verbatim>\<open>undefined\<close> (a claim of the handshake query, the result of
  \<^verbatim>\<open>find\<close>) is a \<open>string option\<close>. It is truthy when it is a string other than the
  empty one. A claim that the query repeats arrives as an array of its values; it
  is truthy, it is not the placeholder, and as a key it is the string of its values
  joined by commas, so it is handled as the claim of that string is.
\<close>

definition given :: "string option \<Rightarrow> bool" where
  "given q = (case q of None \<Rightarrow> False | Some s \<Rightarrow> s \<noteq> [])"

text \<open>
  The handler of a connection registers a claim when
  \<^verbatim>\<open>userId && userId !== "undefined"\<close> holds.
\<close>

definition claimed :: "string option \<Rightarrow> bool" where
  "claimed q = (given q \<and> q \<noteq> Some ''undefined'')"

definition connection ::
  "string \<Rightarrow> string option \<Rightarrow> string option \<Rightarrow> relay_state \<Rightarrow> relay_state \<times> emission list" where
  "connection socketId userId expertId st =
     (let (st1, out1) =
            (if claimed userId
             then (let m = assign (the userId) socketId (userSocketMap st)
                   in (st\<lparr>userSocketMap := m\<rparr>, [Emit Everyone ''getOnlineUsers'' (snapshot m)]))
             else (st, []));
          (st2, out2) =
            (if claimed expertId
             then (let m = assign (the expertId) socketId (expertSocketMap st1)
                   in (st1\<lparr>expertSocketMap := m\<rparr>, [Emit Everyone ''getOnlineExperts'' (snapshot m)]))
             else (st1, []))
      in (st2, out1 @ out2))"

text \<open>\<^verbatim>\<open>Object.keys(m).find((key) => m[key] === socket.id)\<close>.\<close>

definition find_key :: "socket_map \<Rightarrow> string \<Rightarrow> string option" where
  "find_key m socketId = find (\<lambda>key. read_member m key = Value socketId) (Object_keys m)"

definition disconnect :: "string \<Rightarrow> relay_state \<Rightarrow> relay_state \<times> emission list" where
  "disconnect socketId st =
     (let disconnectedUserId = find_key (userSocketMap st) socketId;
          (st1, out1) =
            (if given disconnectedUserId
             then (let m = AList.delete (the disconnectedUserId) (userSocketMap st)
                   in (st\<lparr>userSocketMap := m\<rparr>, [Emit Everyone ''getOnlineUsers'' (snapshot m)]))
             else (st, []));
          disconnectedExpertId = find_key (expertSocketMap st1) socketId;
          (st2, out2) =
            (if given disconnectedExpertId
             then (let m = AList.delete (the disconnectedExpertId) (expertSocketMap st1)
                   in (st1\<lparr>expertSocketMap := m\<rparr>, [Emit Everyone ''getOnlineExperts'' (snapshot m)]))
             else (st1, []))
      in (st2, out1 @ out2))"

section \<open>Direct delivery\<close>

text \<open>
  \<^verbatim>\<open>userSocketMap[k] || expertSocketMap[k]\<close>: the user registry is read first, and
  the expert registry when the first read is falsy. The key is the string of the
  receiver named by the payload, and forming it can throw.
\<close>

definition truthy_read :: "read \<Rightarrow> bool" where
  "truthy_read r = (case r of Undefined \<Rightarrow> False | Value h \<Rightarrow> h \<noteq> [] | Inherited k \<Rightarrow> True)"

definition read_or :: "read \<Rightarrow> read \<Rightarrow> read" where
  "read_or a b = (if truthy_read a then a else b)"

definition receiverSocketId :: "relay_state \<Rightarrow> jsval \<Rightarrow> error + read" where
  "receiverSocketId st receiverId =
     (case to_string receiverId of
        Inl e \<Rightarrow> Inl e
      | Inr k \<Rightarrow> Inr (read_or (read_member (userSocketMap st) k) (read_member (expertSocketMap st) k)))"

text \<open>\<^verbatim>\<open>if (r) { io.to(r).emit(event, payload) }\<close> for what a registry gave.\<close>

definition emit_to :: "read \<Rightarrow> string \<Rightarrow> jsval \<Rightarrow> emission list" where
  "emit_to r event payload =
     (if truthy_read r
      then (case r of
              Value h \<Rightarrow> [Emit (To h) event payload]
            | Inherited k \<Rightarrow> [Emit (ToInherited k) event payload]
            | Undefined \<Rightarrow> [])
      else [])"

text \<open>
  The handlers of the events of a client. A handler changes no registry; it returns
  what it emits, or the error that reading a property of its argument or forming a
  string throws. The two clocks of \<^verbatim>\<open>sendMessage\<close> are the two readings
  \<^verbatim>\<open>new Date()\<close> of its payload.
\<close>

definition newMessage :: "clock \<Rightarrow> clock \<Rightarrow> jsval \<Rightarrow> jsval" where
  "newMessage c1 c2 messageData =
     JObj [(''_id'', js_or (property messageData ''_id'') (JStr (show_nat (getTime c1)))),
           (''senderId'', property messageData ''senderId''),
           (''receiverId'', property messageData ''receiverId''),
           (''text'', property messageData ''text''),
           (''time'', js_or (property messageData ''time'') (newDate c2)),
           (''isFile'', js_or (property messageData ''isFile'') (JBool False)),
           (''fileId'', js_or (property messageData ''fileId'') JNull),
           (''isVoice'', js_or (property messageData ''isVoice'') (JBool False))]"

definition sendMessage :: "clock \<Rightarrow> clock \<Rightarrow> relay_state \<Rightarrow> jsval \<Rightarrow> error + emission list" where
  "sendMessage c1 c2 st messageData =
     (if nullish messageData then Inl TypeError
      else case receiverSocketId st (property messageData ''receiverId'') of
             Inl e \<Rightarrow> Inl e
           | Inr r \<Rightarrow> Inr (emit_to r ''newMessage'' (newMessage c1 c2 messageData)))"

definition messageEdited :: "relay_state \<Rightarrow> jsval \<Rightarrow> error + emission list" where
  "messageEdited st updatedMessage =
     (if nullish updatedMessage then Inl TypeError
      else case receiverSocketId st (property updatedMessage ''receiverId'') of
             Inl e \<Rightarrow> Inl e
           | Inr r \<Rightarrow> Inr (emit_to r ''messageEdited'' updatedMessage))"

definition messageDeleted :: "relay_state \<Rightarrow> jsval \<Rightarrow> error + emission list" where
  "messageDeleted st data =
     (if nullish data then Inl TypeError
      else case receiverSocketId st (property data ''receiverId'') of
             Inl e \<Rightarrow> Inl e
           | Inr r \<Rightarrow>
               Inr (emit_to r ''messageDeleted''
                      (JObj [(''messageId'', property data ''messageId''),
                             (''fileId'', property data ''fileId'')])))"

definition allMessagesDeleted :: "relay_state \<Rightarrow> jsval \<Rightarrow> error + emission list" where
  "allMessagesDeleted st data =
     (if nullish data then Inl TypeError
      else case receiverSocketId st (property data ''receiverId'') of
             Inl e \<Rightarrow> Inl e
           | Inr r \<Rightarrow>
               Inr (emit_to r ''allMessagesDeleted''
                      (JObj [(''senderId'', property data ''senderId''),
                             (''receiverId'', property data ''receiverId'')])))"

section \<open>Room delivery\<close>

definition expertMessageEdited :: "jsval \<Rightarrow> error + emission list" where
  "expertMessageEdited updatedMessage =
     (if nullish updatedMessage then Inl TypeError
      else case roomId (property updatedMessage ''senderId'')
                       (property updatedMessage ''receiverId'') of
             Inl e \<Rightarrow> Inl e
           | Inr room \<Rightarrow> Inr [Emit (To room) ''expertMessageEdited'' updatedMessage])"

definition expertMessageDeleted :: "jsval \<Rightarrow> error + emission list" where
  "expertMessageDeleted data =
     (if nullish data then Inl TypeError
      else case roomId (property data ''senderId'') (property data ''receiverId'') of
             Inl e \<Rightarrow> Inl e
           | Inr room \<Rightarrow>
               Inr [Emit (To room) ''expertMessageDeleted''
                      (JObj [(''messageId'', property data ''messageId''),
                             (''senderId'', property data ''senderId''),
                             (''receiverId'', property data ''receiverId''),
                             (''fileId'', js_or (property data ''fileId'') JNull)])])"

definition allExpertMessagesDeleted :: "jsval \<Rightarrow> error + emission list" where
  "allExpertMessagesDeleted data =
     (if nullish data then Inl TypeError
      else case roomId (property data ''senderID'') (property data ''receiverID'') of
             Inl e \<Rightarrow> Inl e
           | Inr room \<Rightarrow>
               Inr [Emit (To room) ''allExpertMessagesDeleted''
                      (JObj [(''senderID'', property data ''senderID''),
                             (''receiverID'', property data ''receiverID'')])])"

definition conversationDeleted :: "jsval \<Rightarrow> error + emission list" where
  "conversationDeleted data =
     (if nullish data then Inl TypeError
      else case roomId (property data ''senderId'') (property data ''receiverId'') of
             Inl e \<Rightarrow> Inl e
           | Inr room \<Rightarrow> Inr [Emit (To room) ''conversationDeleted'' data])"

section \<open>Emissions of the HTTP handlers\<close>

text \<open>
  The HTTP handlers work on the store and on libraries that are not part of the
  relay. What these give is a parameter of the model: the predicate
  \<^verbatim>\<open>ObjectId.isValid\<close>, and for each awaited call of the store what it answers, or
  that it throws. A handler returns the status of its response and what it emitted;
  an error thrown inside its \<^verbatim>\<open>try\<close> block ends in the response 500.
\<close>

datatype 'a answer = Threw | Answer 'a

text \<open>
  \<^verbatim>\<open>v.toString()\<close>, a method call: it throws on \<^verbatim>\<open>undefined\<close> and \<^verbatim>\<open>null\<close>, and on an
  object whose own \<^verbatim>\<open>toString\<close> cannot be called; otherwise it is the string of \<open>v\<close>.
\<close>

definition toString_method :: "jsval \<Rightarrow> error + string" where
  "toString_method v = (if nullish v then Inl TypeError else to_string v)"

text \<open>
  The emission of \<^verbatim>\<open>sendExpertMessage\<close> (voice.controller.js, the statement that
  follows the insertion of the message), for the strings that \<^verbatim>\<open>toString()\<close> gave
  for the sender and the receiver.
\<close>

definition sendExpertMessage_emit :: "string \<Rightarrow> string \<Rightarrow> jsval \<Rightarrow> error + emission list" where
  "sendExpertMessage_emit senderId receiverId responseMessage =
     (case roomId (JStr senderId) (JStr receiverId) of
        Inl e \<Rightarrow> Inl e
      | Inr room \<Rightarrow> Inr [Emit (To room) ''newExpertMessage'' responseMessage])"

text \<open>
  \<^verbatim>\<open>deleteAllExpertMessages\<close>: its emission, and the handler with the returns that
  come before it. \<open>deleteMany\<close> is the count of deleted messages that the store
  answers, or \<open>Threw\<close> when a call of the store throws.
\<close>

definition deleteAllExpertMessages_emit :: "clock \<Rightarrow> jsval \<Rightarrow> jsval \<Rightarrow> error + emission list" where
  "deleteAllExpertMessages_emit c senderID receiverID =
     (case toString_method senderID of
        Inl e \<Rightarrow> Inl e
      | Inr s \<Rightarrow>
          (case toString_method receiverID of
             Inl e \<Rightarrow> Inl e
           | Inr r \<Rightarrow>
               (case roomId (JStr s) (JStr r) of
                  Inl e \<Rightarrow> Inl e
                | Inr room \<Rightarrow>
                    Inr [Emit (To room) ''allExpertMessagesDeleted''
                           (JObj [(''senderID'', senderID),
                                  (''receiverID'', receiverID),
                                  (''deletedBy'', senderID),
                                  (''deletedAt'', newDate c)])])))"

definition deleteAllExpertMessages ::
  "(jsval \<Rightarrow> bool) \<Rightarrow> clock \<Rightarrow> nat answer \<Rightarrow> jsval \<Rightarrow> jsval \<Rightarrow> nat \<times> emission list" where
  "deleteAllExpertMessages isValid c deleteMany senderID receiverID =
     (if \<not> truthy senderID \<or> \<not> truthy receiverID then (400, [])
      else if \<not> isValid senderID \<or> \<not> isValid receiverID then (400, [])
      else case deleteMany of
             Threw \<Rightarrow> (500, [])
           | Answer deletedCount \<Rightarrow>
               if deletedCount = 0 then (200, [])
               else (case deleteAllExpertMessages_emit c senderID receiverID of
                       Inl e \<Rightarrow> (500, [])
                     | Inr out \<Rightarrow> (200, out)))"

text \<open>
  \<^verbatim>\<open>deleteFileExpert\<close> of the expert file controller. The request carries the
  parameter \<^verbatim>\<open>fileId\<close> of its route, if the route has one (the route
  \<^verbatim>\<open>/expert-file/delete\<close> of \<^verbatim>\<open>Expert.message.route.js\<close> declares none, and the handler
  then answers 400), its body, and the identity that the authentication attached.
  The handler takes \<^verbatim>\<open>req.expert ? req.expert._id : null\<close> in one of three ways: it
  is missing or falsy; it is a string that \<^verbatim>\<open>new ObjectId\<close> refuses, and the
  constructor throws; or it gives the identifier \<^verbatim>\<open>expertIdObj\<close>, which is known
  by the text of its \<^verbatim>\<open>toString()\<close>. The store answers the file, the active
  expert, and the counts of the deletion (the count that the operation does not
  report is \<^verbatim>\<open>undefined\<close>). The sender and the receiver of a file are given by
  the texts of their identifiers, or are \<open>None\<close> when the document holds none, where
  calling a method of the field throws.
\<close>

datatype expert_identity = Missing | Malformed | Identity string

record file_doc =
  doc_senderId :: "string option"
  doc_receiverId :: "string option"
  doc_originalName :: jsval

record expert_doc =
  expert_id :: string
  expert_name :: jsval
  expert_specialization :: jsval

record file_deletion =
  params_fileId :: "string option"
  body :: jsval
  req_expert_id :: expert_identity
  findFile :: "file_doc option answer"
  findExpert :: "expert_doc option answer"
  deletionResult :: "(nat option \<times> nat option) answer"

text \<open>The confirmation to the sender, \<^verbatim>\<open>if (senderSocketId) { ... }\<close>.\<close>

definition deleteFileExpert_confirmation ::
  "relay_state \<Rightarrow> string \<Rightarrow> jsval \<Rightarrow> jsval \<Rightarrow> jsval \<Rightarrow> emission list" where
  "deleteFileExpert_confirmation st expertId fileId deleteType now =
     (let senderSocketId = getReceiverSocketId st expertId
      in emit_to senderSocketId ''expertFileDeleteConfirmation''
           (JObj [(''messageId'', fileId),
                  (''status'', JStr ''deleted''),
                  (''deleteType'', deleteType),
                  (''timestamp'', now)]))"

text \<open>
  The two notifications to the room of the pair, for the texts \<open>expertId\<close> and
  \<open>receiverId\<close> that \<^verbatim>\<open>toString()\<close> gave.
\<close>

definition deleteFileExpert_notifications ::
  "string \<Rightarrow> string \<Rightarrow> file_doc \<Rightarrow> expert_doc \<Rightarrow> jsval \<Rightarrow> jsval \<Rightarrow> jsval
   \<Rightarrow> error + emission list" where
  "deleteFileExpert_notifications expertId receiverId fileDoc senderExpert fileId deleteType now =
     (case roomId (JStr expertId) (JStr receiverId) of
        Inl e \<Rightarrow> Inl e
      | Inr room \<Rightarrow>
          Inr [Emit (To room) ''expertFileDeleted''
                 (JObj [(''messageId'', fileId),
                        (''fileId'', fileId),
                        (''fileName'', doc_originalName fileDoc),
                        (''deletedBy'',
                           JObj [(''_id'', JStr (expert_id senderExpert)),
                                 (''name'', expert_name senderExpert),
                                 (''specialization'', expert_specialization senderExpert)]),
                        (''deletedAt'', now),
                        (''deleteType'', deleteType),
                        (''chatType'', JStr ''expert-to-expert'')]),
               Emit (To room) ''expertMessageDeleted''
                 (JObj [(''messageId'', fileId),
                        (''senderId'', JStr expertId),
                        (''receiverId'', JStr receiverId),
                        (''isFile'', JBool True),
                        (''deleteType'', deleteType)])])"

definition deleteFileExpert ::
  "(string \<Rightarrow> bool) \<Rightarrow> clock \<Rightarrow> relay_state \<Rightarrow> file_deletion \<Rightarrow> nat \<times> emission list" where
  "deleteFileExpert isValid c st req =
     (if nullish (body req) then (500, [])
      else let deleteType = js_or (property (body req) ''deleteType'') (JStr ''soft'')
      in if \<not> given (params_fileId req) \<or> \<not> isValid (the (params_fileId req)) then (400, [])
      else case findFile req of
        Threw \<Rightarrow> (500, [])
      | Answer None \<Rightarrow> (404, [])
      | Answer (Some fileDoc) \<Rightarrow>
          (case req_expert_id req of
             Missing \<Rightarrow> (401, [])
           | Malformed \<Rightarrow> (500, [])
           | Identity expertId \<Rightarrow>
               (case doc_senderId fileDoc of
                  None \<Rightarrow> (500, [])
                | Some senderId \<Rightarrow>
                    if senderId \<noteq> expertId then (403, [])
                    else case findExpert req of
                      Threw \<Rightarrow> (500, [])
                    | Answer None \<Rightarrow> (403, [])
                    | Answer (Some senderExpert) \<Rightarrow>
                        (case deletionResult req of
                           Threw \<Rightarrow> (500, [])
                         | Answer (deletedCount, modifiedCount) \<Rightarrow>
                             if deletedCount = Some 0 \<and> modifiedCount = Some 0 then (500, [])
                             else (case doc_receiverId fileDoc of
                                     None \<Rightarrow> (500, [])
                                   | Some receiverId \<Rightarrow>
                                       (case deleteFileExpert_notifications expertId receiverId
                                               fileDoc senderExpert (JStr (the (params_fileId req)))
                                               deleteType (newDate c) of
                                          Inl e \<Rightarrow> (500, [])
                                        | Inr out \<Rightarrow>
                                            (200, out @ deleteFileExpert_confirmation st expertId
                                                          (JStr (the (params_fileId req)))
                                                          deleteType (newDate c))))))))"

section \<open>Well-formed registries\<close>

text \<open>
  The transport gives every connection an identifier of its own, a string that is
  not empty. A registry is well formed when no key occurs twice, no handle occurs
  twice, and no key and no handle is the empty string.
\<close>

definition registry_ok :: "socket_map \<Rightarrow> bool" where
  "registry_ok m =
     (distinct (map fst m) \<and> distinct (map snd m) \<and> list_all (\<lambda>(k, h). k \<noteq> [] \<and> h \<noteq> []) m)"

definition wf_state :: "relay_state \<Rightarrow> bool" where
  "wf_state st = (registry_ok (userSocketMap st) \<and> registry_ok (expertSocketMap st))"

definition handles :: "relay_state \<Rightarrow> string set" where
  "handles st = snd ` set (userSocketMap st) \<union> snd ` set (expertSocketMap st)"

text \<open>
  The states the relay reaches: it starts with empty registries; a connection
  arrives with an identifier that is not empty and that no registry holds; a
  connection goes. The handlers of events change no registry.
\<close>

inductive reachable :: "relay_state \<Rightarrow> bool" where
  start: "reachable initial"
| connect: "reachable st \<Longrightarrow> socketId \<noteq> [] \<Longrightarrow> socketId \<notin> handles st \<Longrightarrow>
            reachable (fst (connection socketId userId expertId st))"
| leave: "reachable st \<Longrightarrow> reachable (fst (disconnect socketId st))"

section \<open>Auxiliary facts\<close>

lemma to_string_JStr_simp: "to_string (JStr s) = Inr s"
  by simp

lemma roomId_strings:
  "roomId (JStr a) (JStr b) = Inr (if b < a then b @ ''-'' @ a else a @ ''-'' @ b)"
  by (simp add: roomId_def join_def sort2_def)

lemma roomId_strings_commute: "roomId (JStr a) (JStr b) = roomId (JStr b) (JStr a)"
proof -
  consider "a < b" | "b < a" | "a = b" by (rule linorder_cases)
  then show ?thesis
  proof cases
    case 1
    then have "\<not> b < a" by simp
    with 1 show ?thesis by (simp add: roomId_strings)
  next
    case 2
    then have "\<not> a < b" by simp
    with 2 show ?thesis by (simp add: roomId_strings)
  next
    case 3
    then show ?thesis by simp
  qed
qed

lemma separator_split_unique:
  "CHR ''-'' \<notin> set x \<Longrightarrow> CHR ''-'' \<notin> set x' \<Longrightarrow> x @ ''-'' @ y = x' @ ''-'' @ y'
   \<Longrightarrow> x = x' \<and> y = y'"
proof (induction x arbitrary: x')
  case Nil
  then show ?case by (cases x') auto
next
  case (Cons c x)
  then show ?case by (cases x') auto
qed

lemma given_simps:
  "given None = False" "given (Some s) = (s \<noteq> [])"
  by (simp_all add: given_def)

lemma claimed_simps:
  "claimed None = False" "claimed (Some s) = (s \<noteq> [] \<and> s \<noteq> ''undefined'')"
  by (simp_all add: claimed_def given_def)

lemma truthy_read_simps:
  "truthy_read Undefined = False" "truthy_read (Value h) = (h \<noteq> [])"
  "truthy_read (Inherited k) = True"
  by (simp_all add: truthy_read_def)

lemma emit_to_simps:
  "emit_to Undefined ev p = []"
  "emit_to (Value h) ev p = (if h = [] then [] else [Emit (To h) ev p])"
  "emit_to (Inherited k) ev p = [Emit (ToInherited k) ev p]"
  by (simp_all add: emit_to_def truthy_read_def)

lemma read_member_Value_iff: "read_member m k = Value v \<longleftrightarrow> map_of m k = Some v"
  by (simp add: read_member_def split: option.splits)

lemma read_member_absent:
  "map_of m k = None \<Longrightarrow>
   read_member m k = (if k \<in> set object_prototype_names then Inherited k else Undefined)"
  by (simp add: read_member_def)

lemma proto_is_inherited: "''__proto__'' \<in> set object_prototype_names"
  by (simp add: object_prototype_names_def)

lemma map_of_assign:
  "map_of (assign k v m) k' =
     (if k = ''__proto__'' \<and> map_of m k = None then map_of m k'
      else if k' = k then Some v else map_of m k')"
  by (auto simp: assign_def update_conv')

lemma read_member_assign_same:
  "k \<noteq> ''__proto__'' \<Longrightarrow> read_member (assign k v m) k = Value v"
  by (simp add: read_member_Value_iff map_of_assign)

lemma map_of_assign_same_cases: "map_of (assign k v m) k = Some v \<or> map_of (assign k v m) k = None"
  by (auto simp: assign_def update_conv')

lemma keys_assign: "fst ` set (assign k v m) \<subseteq> insert k (fst ` set m)"
  by (auto simp: assign_def dom_update)

lemma distinct_keys_assign:
  "distinct (map fst m) \<Longrightarrow> distinct (map fst (assign k v m))"
  by (simp add: assign_def distinct_update)

lemma set_Object_keys: "set (Object_keys m) = fst ` set m"
  by (auto simp: Object_keys_def)

lemma distinct_Object_keys: "distinct (map fst m) \<Longrightarrow> distinct (Object_keys m)"
  by (auto simp: Object_keys_def)

lemma userSocketMap_connection:
  "userSocketMap (fst (connection sid u e st)) =
     (if claimed u then assign (the u) sid (userSocketMap st) else userSocketMap st)"
  by (simp add: connection_def Let_def)

lemma expertSocketMap_connection:
  "expertSocketMap (fst (connection sid u e st)) =
     (if claimed e then assign (the e) sid (expertSocketMap st) else expertSocketMap st)"
  by (simp add: connection_def Let_def)

lemma snd_connection:
  "snd (connection sid u e st) =
     (if claimed u
      then [Emit Everyone ''getOnlineUsers'' (snapshot (userSocketMap (fst (connection sid u e st))))]
      else []) @
     (if claimed e
      then [Emit Everyone ''getOnlineExperts'' (snapshot (expertSocketMap (fst (connection sid u e st))))]
      else [])"
  by (simp add: connection_def Let_def)

lemma userSocketMap_disconnect:
  "userSocketMap (fst (disconnect sid st)) =
     (if given (find_key (userSocketMap st) sid)
      then AList.delete (the (find_key (userSocketMap st) sid)) (userSocketMap st)
      else userSocketMap st)"
  by (simp add: disconnect_def Let_def)

lemma expertSocketMap_disconnect:
  "expertSocketMap (fst (disconnect sid st)) =
     (if given (find_key (expertSocketMap st) sid)
      then AList.delete (the (find_key (expertSocketMap st) sid)) (expertSocketMap st)
      else expertSocketMap st)"
  by (simp add: disconnect_def Let_def)

lemma snd_disconnect:
  "snd (disconnect sid st) =
     (if given (find_key (userSocketMap st) sid)
      then [Emit Everyone ''getOnlineUsers'' (snapshot (userSocketMap (fst (disconnect sid st))))]
      else []) @
     (if given (find_key (expertSocketMap st) sid)
      then [Emit Everyone ''getOnlineExperts'' (snapshot (expertSocketMap (fst (disconnect sid st))))]
      else [])"
  by (simp add: disconnect_def Let_def)

lemma find_key_SomeD:
  "find_key m sid = Some k \<Longrightarrow> map_of m k = Some sid"
  by (auto simp: find_key_def find_Some_iff read_member_Value_iff)

lemma find_key_None_iff:
  "find_key m sid = None \<longleftrightarrow> (\<forall>k \<in> fst ` set m. map_of m k \<noteq> Some sid)"
  by (simp add: find_key_def find_None_iff set_Object_keys read_member_Value_iff)

lemma snd_in_set: "map_of m k = Some v \<Longrightarrow> v \<in> snd ` set m"
  by (induction m) (auto split: if_splits)

lemma map_of_eq_distinct_snd:
  "distinct (map snd m) \<Longrightarrow> map_of m k = Some v \<Longrightarrow> map_of m k' = Some v \<Longrightarrow> k = k'"
proof (induction m)
  case Nil
  then show ?case by simp
next
  case (Cons p m)
  obtain a b where p: "p = (a, b)" by (cases p)
  from Cons.prems(1) p have nb: "b \<notin> snd ` set m" and d: "distinct (map snd m)" by auto
  show ?case
  proof (cases "k = a")
    case True
    with Cons.prems(2) p have v: "v = b" by simp
    show ?thesis
    proof (cases "k' = a")
      case True
      with \<open>k = a\<close> show ?thesis by simp
    next
      case False
      with Cons.prems(3) p have "map_of m k' = Some v" by simp
      then have "v \<in> snd ` set m" by (rule snd_in_set)
      with v nb show ?thesis by simp
    qed
  next
    case False
    with Cons.prems(2) p have mk: "map_of m k = Some v" by simp
    then have vin: "v \<in> snd ` set m" by (rule snd_in_set)
    show ?thesis
    proof (cases "k' = a")
      case True
      with Cons.prems(3) p have "v = b" by simp
      with vin nb show ?thesis by simp
    next
      case False
      with Cons.prems(3) p have "map_of m k' = Some v" by simp
      with Cons.IH d mk show ?thesis by simp
    qed
  qed
qed

lemma find_key_registered:
  assumes "distinct (map snd m)" and "map_of m u = Some sid"
  shows "find_key m sid = Some u"
proof (cases "find_key m sid")
  case None
  then have "\<forall>k \<in> fst ` set m. map_of m k \<noteq> Some sid"
    by (simp add: find_key_None_iff)
  moreover have "(u, sid) \<in> set m"
    using assms(2) by (rule map_of_SomeD)
  then have "u \<in> fst ` set m"
    by force
  ultimately show ?thesis using assms(2) by blast
next
  case (Some k)
  then have "map_of m k = Some sid" by (rule find_key_SomeD)
  with assms have "u = k" by (rule map_of_eq_distinct_snd)
  with Some show ?thesis by simp
qed

lemma find_key_absent: "sid \<notin> snd ` set m \<Longrightarrow> find_key m sid = None"
  using snd_in_set [of m _ sid] by (auto simp: find_key_None_iff)

lemma registry_ok_key_nonempty:
  "registry_ok m \<Longrightarrow> map_of m k = Some h \<Longrightarrow> k \<noteq> [] \<and> h \<noteq> []"
  by (auto simp: registry_ok_def list_all_iff dest!: map_of_SomeD)

lemma snd_set_update:
  "snd ` set (AList.update k v m) \<subseteq> insert v (snd ` set m)"
  by (induction m) auto

lemma snd_set_assign:
  "snd ` set (assign k v m) \<subseteq> insert v (snd ` set m)"
  using snd_set_update [of k v m] by (auto simp: assign_def)

lemma distinct_snd_update:
  "distinct (map snd m) \<Longrightarrow> v \<notin> snd ` set m \<Longrightarrow> distinct (map snd (AList.update k v m))"
proof (induction m)
  case Nil
  then show ?case by simp
next
  case (Cons p m)
  have sub: "snd ` set (AList.update k v m) \<subseteq> insert v (snd ` set m)"
    by (rule snd_set_update)
  from Cons show ?case using sub by (cases p) auto
qed

lemma distinct_snd_delete:
  "distinct (map snd m) \<Longrightarrow> distinct (map snd (AList.delete k m))"
  by (induction m) (auto simp: AList.delete_eq)

lemma list_all_update:
  "list_all P m \<Longrightarrow> P (k, v) \<Longrightarrow> list_all P (AList.update k v m)"
  by (induction m) auto

lemma list_all_delete:
  "list_all P m \<Longrightarrow> list_all P (AList.delete k m)"
  by (induction m) auto

lemma registry_ok_assign:
  assumes "registry_ok m" and "k \<noteq> []" and "v \<noteq> []" and "v \<notin> snd ` set m"
  shows "registry_ok (assign k v m)"
  using assms
  by (simp add: assign_def registry_ok_def distinct_update distinct_snd_update list_all_update)

lemma registry_ok_delete:
  "registry_ok m \<Longrightarrow> registry_ok (AList.delete k m)"
  by (simp add: registry_ok_def distinct_delete distinct_snd_delete list_all_delete)

text \<open>
  Every state the relay reaches is well formed: the registries start empty, a
  connection adds a fresh handle that is not empty under a key that is not empty,
  and a disconnection only removes an entry.
\<close>

lemma wf_state_initial: "wf_state initial"
  by (simp add: wf_state_def initial_def registry_ok_def)

lemma wf_state_connection:
  assumes "wf_state st" and "sid \<noteq> []" and "sid \<notin> handles st"
  shows "wf_state (fst (connection sid u e st))"
  using assms
  by (auto simp: wf_state_def handles_def userSocketMap_connection expertSocketMap_connection
      claimed_def given_def registry_ok_assign split: option.splits)

lemma wf_state_disconnect:
  assumes "wf_state st"
  shows "wf_state (fst (disconnect sid st))"
  using assms
  by (simp add: wf_state_def userSocketMap_disconnect expertSocketMap_disconnect registry_ok_delete)

lemma reachable_wf_state: "reachable st \<Longrightarrow> wf_state st"
proof (induction rule: reachable.induct)
  case start
  show ?case by (rule wf_state_initial)
next
  case (connect st socketId userId expertId)
  then show ?case by (simp add: wf_state_connection)
next
  case (leave st socketId)
  then show ?case by (simp add: wf_state_disconnect)
qed


lemma delete_changes: "k \<in> fst ` set m \<Longrightarrow> AList.delete k m \<noteq> m"
  using delete_notin_dom [of k m] by auto

lemma given_find_key_changes:
  assumes "registry_ok m"
  shows "given (find_key m sid) \<longleftrightarrow>
         (if given (find_key m sid) then AList.delete (the (find_key m sid)) m else m) \<noteq> m"
proof (cases "given (find_key m sid)")
  case False
  then show ?thesis by simp
next
  case True
  then obtain k where k: "find_key m sid = Some k"
    by (cases "find_key m sid") (simp_all add: given_simps)
  then have "map_of m k = Some sid" by (rule find_key_SomeD)
  then have "(k, sid) \<in> set m" by (rule map_of_SomeD)
  then have "k \<in> fst ` set m" by force
  then have "AList.delete k m \<noteq> m" by (rule delete_changes)
  with True k show ?thesis by simp
qed

lemma disconnect_broadcasts:
  assumes "wf_state st"
  shows "snd (disconnect sid st) =
     (if userSocketMap (fst (disconnect sid st)) = userSocketMap st then []
      else [Emit Everyone ''getOnlineUsers'' (snapshot (userSocketMap (fst (disconnect sid st))))]) @
     (if expertSocketMap (fst (disconnect sid st)) = expertSocketMap st then []
      else [Emit Everyone ''getOnlineExperts'' (snapshot (expertSocketMap (fst (disconnect sid st))))])"
proof -
  from assms have u: "registry_ok (userSocketMap st)" and e: "registry_ok (expertSocketMap st)"
    by (simp_all add: wf_state_def)
  have gu: "given (find_key (userSocketMap st) sid) \<longleftrightarrow>
            userSocketMap (fst (disconnect sid st)) \<noteq> userSocketMap st"
    unfolding userSocketMap_disconnect using u by (rule given_find_key_changes)
  have ge: "given (find_key (expertSocketMap st) sid) \<longleftrightarrow>
            expertSocketMap (fst (disconnect sid st)) \<noteq> expertSocketMap st"
    unfolding expertSocketMap_disconnect using e by (rule given_find_key_changes)
  show ?thesis
    by (simp only: snd_disconnect [of sid st] gu ge if_not_P if_P not_not split: if_splits) auto
qed



lemma receiverSocketId_user:
  assumes "wf_state st" and "map_of (userSocketMap st) r = Some h"
  shows "receiverSocketId st (JStr r) = Inr (Value h) \<and> h \<noteq> []"
proof -
  from assms(1) have "registry_ok (userSocketMap st)" by (simp add: wf_state_def)
  then have "h \<noteq> []" using assms(2) by (rule registry_ok_key_nonempty [THEN conjunct2])
  with assms(2) show ?thesis
    by (simp add: receiverSocketId_def read_or_def truthy_read_def read_member_def)
qed

lemma receiverSocketId_expert:
  assumes "wf_state st" and "read_member (userSocketMap st) r = Undefined"
    and "map_of (expertSocketMap st) r = Some h"
  shows "receiverSocketId st (JStr r) = Inr (Value h) \<and> h \<noteq> []"
proof -
  from assms(1) have "registry_ok (expertSocketMap st)" by (simp add: wf_state_def)
  then have "h \<noteq> []" using assms(3) by (rule registry_ok_key_nonempty [THEN conjunct2])
  with assms(2,3) show ?thesis
    by (simp add: receiverSocketId_def read_or_def truthy_read_def read_member_def)
qed

lemma receiverSocketId_neither:
  assumes "read_member (userSocketMap st) r = Undefined"
    and "read_member (expertSocketMap st) r = Undefined"
  shows "receiverSocketId st (JStr r) = Inr Undefined"
  using assms by (simp add: receiverSocketId_def read_or_def truthy_read_def)

lemma direct_handlers_resolved:
  assumes "\<not> nullish d" and "receiverSocketId st (property d ''receiverId'') = Inr (Value h)"
    and "h \<noteq> []"
  shows "sendMessage c1 c2 st d = Inr [Emit (To h) ''newMessage'' (newMessage c1 c2 d)]"
    and "messageEdited st d = Inr [Emit (To h) ''messageEdited'' d]"
    and "messageDeleted st d =
           Inr [Emit (To h) ''messageDeleted''
                  (JObj [(''messageId'', property d ''messageId''), (''fileId'', property d ''fileId'')])]"
    and "allMessagesDeleted st d =
           Inr [Emit (To h) ''allMessagesDeleted''
                  (JObj [(''senderId'', property d ''senderId''),
                         (''receiverId'', property d ''receiverId'')])]"
  using assms
  by (simp_all add: sendMessage_def messageEdited_def messageDeleted_def allMessagesDeleted_def
      emit_to_simps)

lemma direct_handlers_unresolved:
  assumes "\<not> nullish d" and "receiverSocketId st (property d ''receiverId'') = Inr Undefined"
  shows "sendMessage c1 c2 st d = Inr []"
    and "messageEdited st d = Inr []"
    and "messageDeleted st d = Inr []"
    and "allMessagesDeleted st d = Inr []"
  using assms
  by (simp_all add: sendMessage_def messageEdited_def messageDeleted_def allMessagesDeleted_def
      emit_to_simps)

lemma deleteAllExpertMessages_emit_strings:
  "deleteAllExpertMessages_emit c (JStr a) (JStr b) =
     Inr [Emit (To (if b < a then b @ ''-'' @ a else a @ ''-'' @ b)) ''allExpertMessagesDeleted''
            (JObj [(''senderID'', JStr a), (''receiverID'', JStr b), (''deletedBy'', JStr a),
                   (''deletedAt'', newDate c)])]"
  by (simp add: deleteAllExpertMessages_emit_def toString_method_def nullish_def roomId_strings)

lemma property_JObj_Cons:
  "property (JObj ((k, v) # fs)) k' = (if k = k' then v else property (JObj fs) k')"
  by (simp add: property_def)

lemma deleteFileExpert_emissions:
  "snd (deleteFileExpert isValid c st req) = []
   \<or> (\<exists>out expertId fileId deleteType.
         req_expert_id req = Identity expertId
         \<and> snd (deleteFileExpert isValid c st req) =
             out @ deleteFileExpert_confirmation st expertId fileId deleteType (newDate c)
         \<and> list_all (\<lambda>e. event_of e \<noteq> ''expertFileDeleteConfirmation'') out)"
proof -
  have n: "deleteFileExpert_notifications i r f x fid t now = Inr out \<Longrightarrow>
           list_all (\<lambda>e. event_of e \<noteq> ''expertFileDeleteConfirmation'') out" for i r f x fid t now out
    by (auto simp: deleteFileExpert_notifications_def split: sum.splits)
  show ?thesis
    unfolding deleteFileExpert_def Let_def
    by (auto split: answer.splits option.splits sum.splits prod.splits expert_identity.splits
        dest: n)
qed

section \<open>The claims\<close>

subsection \<open>A stale disconnect\<close>



subsection \<open>Registration and lookup\<close>

text \<open>
  C2, evaluated where it fails. A connection claims the identity \<^verbatim>\<open>__proto__\<close>. The
  guard of the handler lets the claim pass, the assignment stores nothing, and
  looking the identity up gives the prototype and not the handle; a second
  registration changes nothing of that.
\<close>

theorem proto_registration_is_lost:
  "claimed (Some ''__proto__'')
   \<and> userSocketMap (fst (connection ''s1'' (Some ''__proto__'') None initial)) = []
   \<and> getReceiverSocketId (fst (connection ''s1'' (Some ''__proto__'') None initial)) ''__proto__''
     = Inherited ''__proto__''
   \<and> getReceiverSocketId (fst (connection ''s1'' (Some ''__proto__'') None initial)) ''__proto__''
     \<noteq> Value ''s1''
   \<and> getExpertSocketId
       (fst (connection ''s2'' None (Some ''__proto__'')
              (fst (connection ''s1'' None (Some ''__proto__'') initial)))) ''__proto__''
     = Inherited ''__proto__''"
  by (simp add: claimed_simps userSocketMap_connection expertSocketMap_connection initial_def
      assign_def getReceiverSocketId_def getExpertSocketId_def read_member_def
      object_prototype_names_def)

text \<open>
  Every other identity is stored: after a registration the lookup gives the
  handle, after two in a row the second one, and the keys stay distinct.
\<close>

lemma register_then_lookup:
  assumes "claimed (Some i)" and "i \<noteq> ''__proto__''"
  shows "getReceiverSocketId (fst (connection h (Some i) e st)) i = Value h
       \<and> getExpertSocketId (fst (connection h u (Some i) st)) i = Value h
       \<and> getReceiverSocketId
           (fst (connection h2 (Some i) e2 (fst (connection h1 (Some i) e1 st)))) i = Value h2
       \<and> getExpertSocketId
           (fst (connection h2 u2 (Some i) (fst (connection h1 u1 (Some i) st)))) i = Value h2
       \<and> (distinct (map fst (userSocketMap st)) \<longrightarrow>
            distinct (Object_keys (userSocketMap (fst (connection h u' e' st)))))
       \<and> (distinct (map fst (expertSocketMap st)) \<longrightarrow>
            distinct (Object_keys (expertSocketMap (fst (connection h u' e' st)))))"
proof -
  have a: "getReceiverSocketId (fst (connection h (Some i) e st)) i = Value h" for h e st
    using assms by (simp add: getReceiverSocketId_def userSocketMap_connection read_member_assign_same)
  have b: "getExpertSocketId (fst (connection h u (Some i) st)) i = Value h" for h u st
    using assms by (simp add: getExpertSocketId_def expertSocketMap_connection read_member_assign_same)
  have c: "distinct (map fst (userSocketMap st)) \<Longrightarrow>
           distinct (Object_keys (userSocketMap (fst (connection h u' e' st))))"
    by (simp add: userSocketMap_connection distinct_keys_assign distinct_Object_keys)
  have d: "distinct (map fst (expertSocketMap st)) \<Longrightarrow>
           distinct (Object_keys (expertSocketMap (fst (connection h u' e' st))))"
    by (simp add: expertSocketMap_connection distinct_keys_assign distinct_Object_keys)
  show ?thesis
    using c d by (simp add: a b)
qed

subsection \<open>Direct delivery to one receiver\<close>

text \<open>
  C3, evaluated where it fails. An expert is registered under the identity
  \<^verbatim>\<open>constructor\<close> and no user is, in a state that is reached and well formed. Reading
  that key in the user registry gives the inherited member, which is truthy, so the
  expert registry is not read: \<^verbatim>\<open>messageEdited\<close> and \<^verbatim>\<open>sendMessage\<close> for that receiver
  are emitted to a room that no connection is in, and not to the expert's handle.
\<close>

theorem inherited_member_hides_expert:
  "claimed (Some ''constructor'')
   \<and> fst (connection ''s2'' None (Some ''constructor'') initial)
     = \<lparr>userSocketMap = [], expertSocketMap = [(''constructor'', ''s2'')]\<rparr>
   \<and> wf_state \<lparr>userSocketMap = [], expertSocketMap = [(''constructor'', ''s2'')]\<rparr>
   \<and> getExpertSocketId \<lparr>userSocketMap = [], expertSocketMap = [(''constructor'', ''s2'')]\<rparr>
       ''constructor'' = Value ''s2''
   \<and> getReceiverSocketId \<lparr>userSocketMap = [], expertSocketMap = [(''constructor'', ''s2'')]\<rparr>
       ''constructor'' = Inherited ''constructor''
   \<and> messageEdited \<lparr>userSocketMap = [], expertSocketMap = [(''constructor'', ''s2'')]\<rparr>
       (JObj [(''senderId'', JStr ''u1''), (''receiverId'', JStr ''constructor''), (''text'', JStr ''hi'')])
     = Inr [Emit (ToInherited ''constructor'') ''messageEdited''
              (JObj [(''senderId'', JStr ''u1''), (''receiverId'', JStr ''constructor''),
                     (''text'', JStr ''hi'')])]
   \<and> sendMessage \<lparr>getTime = 5, dateText = ''d5''\<rparr> \<lparr>getTime = 6, dateText = ''d6''\<rparr>
       \<lparr>userSocketMap = [], expertSocketMap = [(''constructor'', ''s2'')]\<rparr>
       (JObj [(''senderId'', JStr ''u1''), (''receiverId'', JStr ''constructor''), (''text'', JStr ''hi'')])
     = Inr [Emit (ToInherited ''constructor'') ''newMessage''
              (JObj [(''_id'', JStr ''5''), (''senderId'', JStr ''u1''),
                     (''receiverId'', JStr ''constructor''), (''text'', JStr ''hi''),
                     (''time'', JDate 6 ''d6''), (''isFile'', JBool False), (''fileId'', JNull),
                     (''isVoice'', JBool False)])]"
  by (simp add: claimed_simps connection_def Let_def initial_def assign_def wf_state_def
      registry_ok_def getReceiverSocketId_def getExpertSocketId_def read_member_def
      object_prototype_names_def messageEdited_def sendMessage_def nullish_def property_def
      receiverSocketId_def read_or_def truthy_read_def emit_to_def newMessage_def js_or_def
      newDate_def)

text \<open>
  A receiver \<open>r\<close> that is no name of the prototype is served from both
  registries, in a well-formed state: when \<open>r\<close> is registered as a user, or is not
  and is registered as an expert,
  each of the four direct events is emitted exactly once, to the handle found; when
  \<open>r\<close> is in neither registry nothing is emitted and no error is raised.
\<close>

lemma direct_delivery:
  assumes "wf_state st" and "\<not> nullish d" and "property d ''receiverId'' = JStr r"
    and "r \<notin> set object_prototype_names"
  shows "(getReceiverSocketId st r = Value h
            \<or> getReceiverSocketId st r = Undefined \<and> getExpertSocketId st r = Value h \<longrightarrow>
          sendMessage c1 c2 st d = Inr [Emit (To h) ''newMessage'' (newMessage c1 c2 d)]
          \<and> messageEdited st d = Inr [Emit (To h) ''messageEdited'' d]
          \<and> messageDeleted st d =
              Inr [Emit (To h) ''messageDeleted''
                     (JObj [(''messageId'', property d ''messageId''),
                            (''fileId'', property d ''fileId'')])]
          \<and> allMessagesDeleted st d =
              Inr [Emit (To h) ''allMessagesDeleted''
                     (JObj [(''senderId'', property d ''senderId''), (''receiverId'', JStr r)])])
       \<and> (getReceiverSocketId st r = Undefined \<and> getExpertSocketId st r = Undefined \<longrightarrow>
          sendMessage c1 c2 st d = Inr [] \<and> messageEdited st d = Inr []
          \<and> messageDeleted st d = Inr [] \<and> allMessagesDeleted st d = Inr [])"
proof (intro conjI impI)
  assume reg: "getReceiverSocketId st r = Value h
            \<or> getReceiverSocketId st r = Undefined \<and> getExpertSocketId st r = Value h"
  have "receiverSocketId st (JStr r) = Inr (Value h) \<and> h \<noteq> []"
    using reg assms(1) receiverSocketId_user [of st r h] receiverSocketId_expert [of st r h]
    unfolding getReceiverSocketId_def getExpertSocketId_def read_member_Value_iff by blast
  then have r: "receiverSocketId st (property d ''receiverId'') = Inr (Value h)" and g: "h \<noteq> []"
    by (simp_all add: assms(3))
  note t = direct_handlers_resolved [OF assms(2) r g]
  show "sendMessage c1 c2 st d = Inr [Emit (To h) ''newMessage'' (newMessage c1 c2 d)]"
    by (rule t(1))
  show "messageEdited st d = Inr [Emit (To h) ''messageEdited'' d]"
    by (rule t(2))
  show "messageDeleted st d =
              Inr [Emit (To h) ''messageDeleted''
                     (JObj [(''messageId'', property d ''messageId''),
                            (''fileId'', property d ''fileId'')])]"
    by (rule t(3))
  show "allMessagesDeleted st d =
              Inr [Emit (To h) ''allMessagesDeleted''
                     (JObj [(''senderId'', property d ''senderId''), (''receiverId'', JStr r)])]"
    using t(4) by (simp add: assms(3))
next
  assume "getReceiverSocketId st r = Undefined \<and> getExpertSocketId st r = Undefined"
  then have "receiverSocketId st (JStr r) = Inr Undefined"
    unfolding getReceiverSocketId_def getExpertSocketId_def
    by (simp add: receiverSocketId_neither)
  then have r: "receiverSocketId st (property d ''receiverId'') = Inr Undefined"
    by (simp add: assms(3))
  note t = direct_handlers_unresolved [OF assms(2) r]
  show "sendMessage c1 c2 st d = Inr []" by (rule t(1))
  show "messageEdited st d = Inr []" by (rule t(2))
  show "messageDeleted st d = Inr []" by (rule t(3))
  show "allMessagesDeleted st d = Inr []" by (rule t(4))
qed

subsection \<open>The room key is symmetric\<close>

text \<open>
  C4. The room key of the tokens \<open>a\<close> and \<open>b\<close> is the room key of \<open>b\<close> and \<open>a\<close>.
  Hence the HTTP handlers \<^verbatim>\<open>sendExpertMessage\<close> and \<^verbatim>\<open>deleteAllExpertMessages\<close> and the
  four relay handlers of expert events address the same room whichever of the two
  tokens is the sender.
\<close>

theorem roomId_symmetric:
  "roomId (JStr a) (JStr b) = roomId (JStr b) (JStr a)
   \<and> sendExpertMessage_emit a b msg = sendExpertMessage_emit b a msg
   \<and> map_sum id (map target_of) (deleteAllExpertMessages_emit c (JStr a) (JStr b))
     = map_sum id (map target_of) (deleteAllExpertMessages_emit c (JStr b) (JStr a))
   \<and> map target_of (snd (deleteAllExpertMessages isValid c deleteMany (JStr a) (JStr b)))
     = map target_of (snd (deleteAllExpertMessages isValid c deleteMany (JStr b) (JStr a)))
   \<and> map_sum id (map target_of)
         (expertMessageEdited (JObj ((''senderId'', JStr a) # (''receiverId'', JStr b) # fs)))
     = map_sum id (map target_of)
         (expertMessageEdited (JObj ((''senderId'', JStr b) # (''receiverId'', JStr a) # fs)))
   \<and> map_sum id (map target_of)
         (expertMessageDeleted (JObj ((''senderId'', JStr a) # (''receiverId'', JStr b) # fs)))
     = map_sum id (map target_of)
         (expertMessageDeleted (JObj ((''senderId'', JStr b) # (''receiverId'', JStr a) # fs)))
   \<and> map_sum id (map target_of)
         (allExpertMessagesDeleted (JObj ((''senderID'', JStr a) # (''receiverID'', JStr b) # fs)))
     = map_sum id (map target_of)
         (allExpertMessagesDeleted (JObj ((''senderID'', JStr b) # (''receiverID'', JStr a) # fs)))
   \<and> map_sum id (map target_of)
         (conversationDeleted (JObj ((''senderId'', JStr a) # (''receiverId'', JStr b) # fs)))
     = map_sum id (map target_of)
         (conversationDeleted (JObj ((''senderId'', JStr b) # (''receiverId'', JStr a) # fs)))"
proof -
  have r: "roomId (JStr a) (JStr b) = roomId (JStr b) (JStr a)"
    by (rule roomId_strings_commute)
  have r': "(if b < a then b @ ''-'' @ a else a @ ''-'' @ b)
          = (if a < b then a @ ''-'' @ b else b @ ''-'' @ a)"
    using r by (simp only: roomId_strings sum.inject)
  have h: "sendExpertMessage_emit a b msg = sendExpertMessage_emit b a msg"
    by (simp add: sendExpertMessage_emit_def r)
  have t: "map_sum id (map target_of) (deleteAllExpertMessages_emit c (JStr a) (JStr b))
     = map_sum id (map target_of) (deleteAllExpertMessages_emit c (JStr b) (JStr a))"
    unfolding deleteAllExpertMessages_emit_strings using r' by simp
  have t': "map target_of (snd (deleteAllExpertMessages isValid c deleteMany (JStr a) (JStr b)))
     = map target_of (snd (deleteAllExpertMessages isValid c deleteMany (JStr b) (JStr a)))"
    unfolding deleteAllExpertMessages_def deleteAllExpertMessages_emit_strings using r'
    by (cases deleteMany) auto
  have e: "map_sum id (map target_of)
         (expertMessageEdited (JObj ((''senderId'', JStr a) # (''receiverId'', JStr b) # fs)))
     = map_sum id (map target_of)
         (expertMessageEdited (JObj ((''senderId'', JStr b) # (''receiverId'', JStr a) # fs)))"
    by (simp add: expertMessageEdited_def nullish_def property_def roomId_strings r')
  have d: "map_sum id (map target_of)
         (expertMessageDeleted (JObj ((''senderId'', JStr a) # (''receiverId'', JStr b) # fs)))
     = map_sum id (map target_of)
         (expertMessageDeleted (JObj ((''senderId'', JStr b) # (''receiverId'', JStr a) # fs)))"
    by (simp add: expertMessageDeleted_def nullish_def property_def roomId_strings r')
  have l: "map_sum id (map target_of)
         (allExpertMessagesDeleted (JObj ((''senderID'', JStr a) # (''receiverID'', JStr b) # fs)))
     = map_sum id (map target_of)
         (allExpertMessagesDeleted (JObj ((''senderID'', JStr b) # (''receiverID'', JStr a) # fs)))"
    by (simp add: allExpertMessagesDeleted_def nullish_def property_def roomId_strings r')
  have v: "map_sum id (map target_of)
         (conversationDeleted (JObj ((''senderId'', JStr a) # (''receiverId'', JStr b) # fs)))
     = map_sum id (map target_of)
         (conversationDeleted (JObj ((''senderId'', JStr b) # (''receiverId'', JStr a) # fs)))"
    by (simp add: conversationDeleted_def nullish_def property_def roomId_strings r')
  show ?thesis using r h t t' e d l v by blast
qed

theorem roomId_symmetric_witness:
  "roomId (JStr ''e1'') (JStr ''e2'') = Inr ''e1-e2''
   \<and> roomId (JStr ''e2'') (JStr ''e1'') = Inr ''e1-e2''"
proof -
  have "roomId (JStr ''e1'') (JStr ''e2'') = Inr ''e1-e2''"
    by (simp add: roomId_strings)
  with roomId_symmetric [of "''e1''" "''e2''"] show ?thesis by simp
qed

subsection \<open>Disconnection of a user\<close>

text \<open>
  C5. A connection registered as user \<open>u\<close> disconnects, in a well-formed state.
  Then \<open>u\<close> is removed from the user registry and is no key of it any more, so
  that looking \<open>u\<close> up gives no handle (it gives \<^verbatim>\<open>undefined\<close>, or the inherited member
  when \<open>u\<close> is a name of the prototype); the snapshot of the user registry after
  the removal is broadcast to everyone as \<^verbatim>\<open>getOnlineUsers\<close>, and
  \<^verbatim>\<open>getOnlineExperts\<close> is broadcast exactly when the expert registry changed; it does
  not change when the connection holds no entry in it.
\<close>

theorem disconnect_removes_user:
  assumes "wf_state st" and "getReceiverSocketId st u = Value sid"
  shows "userSocketMap (fst (disconnect sid st)) = AList.delete u (userSocketMap st)
       \<and> u \<notin> set (Object_keys (userSocketMap (fst (disconnect sid st))))
       \<and> getReceiverSocketId (fst (disconnect sid st)) u
         = (if u \<in> set object_prototype_names then Inherited u else Undefined)
       \<and> snd (disconnect sid st) =
           Emit Everyone ''getOnlineUsers'' (snapshot (userSocketMap (fst (disconnect sid st)))) #
           (if expertSocketMap (fst (disconnect sid st)) = expertSocketMap st then []
            else [Emit Everyone ''getOnlineExperts''
                    (snapshot (expertSocketMap (fst (disconnect sid st))))])
       \<and> (sid \<notin> snd ` set (expertSocketMap st) \<longrightarrow>
            expertSocketMap (fst (disconnect sid st)) = expertSocketMap st)"
proof -
  from assms(1) have ok: "registry_ok (userSocketMap st)" by (simp add: wf_state_def)
  then have ds: "distinct (map snd (userSocketMap st))" by (simp add: registry_ok_def)
  from assms(2) have mu: "map_of (userSocketMap st) u = Some sid"
    by (simp add: getReceiverSocketId_def read_member_Value_iff)
  from ds mu have fk: "find_key (userSocketMap st) sid = Some u" by (rule find_key_registered)
  from ok mu have "u \<noteq> []" by (simp add: registry_ok_key_nonempty)
  with fk have g: "given (find_key (userSocketMap st) sid)" by (simp add: given_simps)
  from g fk have um: "userSocketMap (fst (disconnect sid st)) = AList.delete u (userSocketMap st)"
    by (simp add: userSocketMap_disconnect)
  have notin: "u \<notin> set (Object_keys (userSocketMap (fst (disconnect sid st))))"
    unfolding um set_Object_keys by (rule delete_notin_dom)
  have "map_of (AList.delete u (userSocketMap st)) u = None"
    by (simp add: delete_conv')
  then have none: "getReceiverSocketId (fst (disconnect sid st)) u
         = (if u \<in> set object_prototype_names then Inherited u else Undefined)"
    unfolding getReceiverSocketId_def um by (rule read_member_absent)
  from mu have "(u, sid) \<in> set (userSocketMap st)" by (rule map_of_SomeD)
  then have "u \<in> fst ` set (userSocketMap st)" by force
  then have ch: "userSocketMap (fst (disconnect sid st)) \<noteq> userSocketMap st"
    unfolding um by (rule delete_changes)
  have out: "snd (disconnect sid st) =
           Emit Everyone ''getOnlineUsers'' (snapshot (userSocketMap (fst (disconnect sid st)))) #
           (if expertSocketMap (fst (disconnect sid st)) = expertSocketMap st then []
            else [Emit Everyone ''getOnlineExperts''
                    (snapshot (expertSocketMap (fst (disconnect sid st))))])"
    using ch by (simp add: disconnect_broadcasts [OF assms(1)])
  have ex: "sid \<notin> snd ` set (expertSocketMap st) \<Longrightarrow>
            expertSocketMap (fst (disconnect sid st)) = expertSocketMap st"
    by (simp add: expertSocketMap_disconnect find_key_absent given_simps)
  show ?thesis using um notin none out ex by blast
qed

theorem disconnect_removes_user_witness:
  "wf_state \<lparr>userSocketMap = [(''u1'', ''s1''), (''7'', ''s3'')], expertSocketMap = [(''e1'', ''s2'')]\<rparr>
   \<and> getReceiverSocketId
        \<lparr>userSocketMap = [(''u1'', ''s1''), (''7'', ''s3'')], expertSocketMap = [(''e1'', ''s2'')]\<rparr>
        ''u1'' = Value ''s1''
   \<and> userSocketMap (fst (disconnect ''s1''
        \<lparr>userSocketMap = [(''u1'', ''s1''), (''7'', ''s3'')], expertSocketMap = [(''e1'', ''s2'')]\<rparr>))
       = [(''7'', ''s3'')]
   \<and> getReceiverSocketId (fst (disconnect ''s1''
        \<lparr>userSocketMap = [(''u1'', ''s1''), (''7'', ''s3'')], expertSocketMap = [(''e1'', ''s2'')]\<rparr>))
        ''u1'' = Undefined
   \<and> expertSocketMap (fst (disconnect ''s1''
        \<lparr>userSocketMap = [(''u1'', ''s1''), (''7'', ''s3'')], expertSocketMap = [(''e1'', ''s2'')]\<rparr>))
       = [(''e1'', ''s2'')]
   \<and> snd (disconnect ''s1''
        \<lparr>userSocketMap = [(''u1'', ''s1''), (''7'', ''s3'')], expertSocketMap = [(''e1'', ''s2'')]\<rparr>)
       = [Emit Everyone ''getOnlineUsers'' (JArr [JStr ''7''])]"
proof -
  let ?st = "\<lparr>userSocketMap = [(''u1'', ''s1''), (''7'', ''s3'')], expertSocketMap = [(''e1'', ''s2'')]\<rparr>"
  have w: "wf_state ?st" by (simp add: wf_state_def registry_ok_def)
  have g: "getReceiverSocketId ?st ''u1'' = Value ''s1''"
    by (simp add: getReceiverSocketId_def read_member_def)
  note t = disconnect_removes_user [OF w g]
  from t have um: "userSocketMap (fst (disconnect ''s1'' ?st)) = [(''7'', ''s3'')]" by simp
  from t have em: "expertSocketMap (fst (disconnect ''s1'' ?st)) = [(''e1'', ''s2'')]" by simp
  from t have "getReceiverSocketId (fst (disconnect ''s1'' ?st)) ''u1''
         = (if ''u1'' \<in> set object_prototype_names then Inherited ''u1'' else Undefined)"
    by blast
  then have un: "getReceiverSocketId (fst (disconnect ''s1'' ?st)) ''u1'' = Undefined"
    by (simp add: object_prototype_names_def)
  from t have "snd (disconnect ''s1'' ?st) =
           Emit Everyone ''getOnlineUsers'' (snapshot (userSocketMap (fst (disconnect ''s1'' ?st)))) #
           (if expertSocketMap (fst (disconnect ''s1'' ?st)) = expertSocketMap ?st then []
            else [Emit Everyone ''getOnlineExperts''
                    (snapshot (expertSocketMap (fst (disconnect ''s1'' ?st))))])"
    by blast
  then have out: "snd (disconnect ''s1'' ?st) = [Emit Everyone ''getOnlineUsers'' (JArr [JStr ''7''])]"
    by (simp add: um em snapshot_def Object_keys_def is_array_index_def is_digit_def decimal_def)
  show ?thesis using w g um un em out by blast
qed

subsection \<open>The payloads emitted\<close>

text \<open>
  C6 as stated fails: a \<^verbatim>\<open>sendMessage\<close> event without \<^verbatim>\<open>_id\<close>, \<^verbatim>\<open>time\<close>, \<^verbatim>\<open>isFile\<close>,
  \<^verbatim>\<open>fileId\<close> and \<^verbatim>\<open>isVoice\<close> is delivered with these five fields added, so the payload
  delivered is not the payload received.
\<close>

theorem sendMessage_rebuilds_payload:
  "sendMessage \<lparr>getTime = 5, dateText = ''d5''\<rparr> \<lparr>getTime = 6, dateText = ''d6''\<rparr>
     \<lparr>userSocketMap = [(''u1'', ''s1'')], expertSocketMap = [(''e1'', ''s2'')]\<rparr>
     (JObj [(''senderId'', JStr ''u1''), (''receiverId'', JStr ''e1''), (''text'', JStr ''hi'')])
   = Inr [Emit (To ''s2'') ''newMessage''
            (JObj [(''_id'', JStr ''5''), (''senderId'', JStr ''u1''), (''receiverId'', JStr ''e1''),
                   (''text'', JStr ''hi''), (''time'', JDate 6 ''d6''), (''isFile'', JBool False),
                   (''fileId'', JNull), (''isVoice'', JBool False)])]
   \<and> JObj [(''_id'', JStr ''5''), (''senderId'', JStr ''u1''), (''receiverId'', JStr ''e1''),
            (''text'', JStr ''hi''), (''time'', JDate 6 ''d6''), (''isFile'', JBool False),
            (''fileId'', JNull), (''isVoice'', JBool False)]
       \<noteq> JObj [(''senderId'', JStr ''u1''), (''receiverId'', JStr ''e1''), (''text'', JStr ''hi'')]"
  by (simp add: sendMessage_def nullish_def property_def receiverSocketId_def read_or_def
      truthy_read_def read_member_def object_prototype_names_def emit_to_def newMessage_def
      js_or_def newDate_def)

text \<open>
  C6, amended. For a \<^verbatim>\<open>sendMessage\<close> event whose receiver resolves to the handle
  \<open>h\<close>, the relay emits to \<open>h\<close> a \<^verbatim>\<open>newMessage\<close> payload built from the event: it has
  exactly the eight fields \<^verbatim>\<open>_id\<close>, \<^verbatim>\<open>senderId\<close>, \<^verbatim>\<open>receiverId\<close>, \<^verbatim>\<open>text\<close>, \<^verbatim>\<open>time\<close>,
  \<^verbatim>\<open>isFile\<close>, \<^verbatim>\<open>fileId\<close>, \<^verbatim>\<open>isVoice\<close>; \<^verbatim>\<open>senderId\<close>, \<^verbatim>\<open>receiverId\<close> and \<^verbatim>\<open>text\<close> are as
  supplied; each of the other five is as supplied when truthy and otherwise the
  clock reading as a string, the current date, \<^verbatim>\<open>false\<close>, \<^verbatim>\<open>null\<close> and \<^verbatim>\<open>false\<close>.
  \<^verbatim>\<open>messageEdited\<close>, when its receiver resolves to a handle, and
  \<^verbatim>\<open>expertMessageEdited\<close> and \<^verbatim>\<open>conversationDeleted\<close>, when the room key of the pair
  can be formed, forward the payload they received as it is. The event is not
  \<^verbatim>\<open>null\<close> or \<^verbatim>\<open>undefined\<close>, on which every handler throws.
\<close>

theorem relay_payloads:
  "(\<not> nullish d \<and> receiverSocketId st (property d ''receiverId'') = Inr (Value h) \<and> h \<noteq> [] \<longrightarrow>
      sendMessage c1 c2 st d = Inr [Emit (To h) ''newMessage'' (newMessage c1 c2 d)]
      \<and> messageEdited st d = Inr [Emit (To h) ''messageEdited'' d])
   \<and> (\<exists>fs. newMessage c1 c2 d = JObj fs
          \<and> map fst fs = [''_id'', ''senderId'', ''receiverId'', ''text'', ''time'', ''isFile'',
                           ''fileId'', ''isVoice''])
   \<and> property (newMessage c1 c2 d) ''senderId'' = property d ''senderId''
   \<and> property (newMessage c1 c2 d) ''receiverId'' = property d ''receiverId''
   \<and> property (newMessage c1 c2 d) ''text'' = property d ''text''
   \<and> property (newMessage c1 c2 d) ''_id'' =
       (if truthy (property d ''_id'') then property d ''_id'' else JStr (show_nat (getTime c1)))
   \<and> property (newMessage c1 c2 d) ''time'' =
       (if truthy (property d ''time'') then property d ''time'' else newDate c2)
   \<and> property (newMessage c1 c2 d) ''isFile'' =
       (if truthy (property d ''isFile'') then property d ''isFile'' else JBool False)
   \<and> property (newMessage c1 c2 d) ''fileId'' =
       (if truthy (property d ''fileId'') then property d ''fileId'' else JNull)
   \<and> property (newMessage c1 c2 d) ''isVoice'' =
       (if truthy (property d ''isVoice'') then property d ''isVoice'' else JBool False)
   \<and> (\<not> nullish d \<and> roomId (property d ''senderId'') (property d ''receiverId'') = Inr room \<longrightarrow>
      expertMessageEdited d = Inr [Emit (To room) ''expertMessageEdited'' d]
      \<and> conversationDeleted d = Inr [Emit (To room) ''conversationDeleted'' d])"
proof -
  have s: "sendMessage c1 c2 st d = Inr [Emit (To h) ''newMessage'' (newMessage c1 c2 d)]
      \<and> messageEdited st d = Inr [Emit (To h) ''messageEdited'' d]"
    if "\<not> nullish d \<and> receiverSocketId st (property d ''receiverId'') = Inr (Value h) \<and> h \<noteq> []"
    using that direct_handlers_resolved(1,2) [of d st h] by blast
  have f: "\<exists>fs. newMessage c1 c2 d = JObj fs
              \<and> map fst fs = [''_id'', ''senderId'', ''receiverId'', ''text'', ''time'', ''isFile'',
                               ''fileId'', ''isVoice'']"
    by (simp add: newMessage_def)
  have p: "property (newMessage c1 c2 d) ''senderId'' = property d ''senderId''"
    "property (newMessage c1 c2 d) ''receiverId'' = property d ''receiverId''"
    "property (newMessage c1 c2 d) ''text'' = property d ''text''"
    "property (newMessage c1 c2 d) ''_id'' =
           (if truthy (property d ''_id'') then property d ''_id'' else JStr (show_nat (getTime c1)))"
    "property (newMessage c1 c2 d) ''time'' =
           (if truthy (property d ''time'') then property d ''time'' else newDate c2)"
    "property (newMessage c1 c2 d) ''isFile'' =
           (if truthy (property d ''isFile'') then property d ''isFile'' else JBool False)"
    "property (newMessage c1 c2 d) ''fileId'' =
           (if truthy (property d ''fileId'') then property d ''fileId'' else JNull)"
    "property (newMessage c1 c2 d) ''isVoice'' =
           (if truthy (property d ''isVoice'') then property d ''isVoice'' else JBool False)"
    by (simp_all add: newMessage_def property_JObj_Cons js_or_def)
  have r: "expertMessageEdited d = Inr [Emit (To room) ''expertMessageEdited'' d]
      \<and> conversationDeleted d = Inr [Emit (To room) ''conversationDeleted'' d]"
    if "\<not> nullish d \<and> roomId (property d ''senderId'') (property d ''receiverId'') = Inr room"
    using that by (simp add: expertMessageEdited_def conversationDeleted_def)
  show ?thesis using s f p r by blast
qed

theorem relay_payloads_witness:
  "\<not> nullish (JObj [(''_id'', JStr ''m1''), (''senderId'', JStr ''u1''), (''receiverId'', JStr ''e1''),
                    (''text'', JStr ''hi''), (''time'', JStr ''t1''), (''isFile'', JBool True),
                    (''fileId'', JStr ''f1''), (''isVoice'', JBool True)])
   \<and> receiverSocketId \<lparr>userSocketMap = [(''u1'', ''s1'')], expertSocketMap = [(''e1'', ''s2'')]\<rparr>
        (property (JObj [(''_id'', JStr ''m1''), (''senderId'', JStr ''u1''), (''receiverId'', JStr ''e1''),
                    (''text'', JStr ''hi''), (''time'', JStr ''t1''), (''isFile'', JBool True),
                    (''fileId'', JStr ''f1''), (''isVoice'', JBool True)]) ''receiverId'')
       = Inr (Value ''s2'')
   \<and> ''s2'' \<noteq> []
   \<and> roomId (property (JObj [(''_id'', JStr ''m1''), (''senderId'', JStr ''u1''), (''receiverId'', JStr ''e1''),
                    (''text'', JStr ''hi''), (''time'', JStr ''t1''), (''isFile'', JBool True),
                    (''fileId'', JStr ''f1''), (''isVoice'', JBool True)]) ''senderId'')
             (property (JObj [(''_id'', JStr ''m1''), (''senderId'', JStr ''u1''), (''receiverId'', JStr ''e1''),
                    (''text'', JStr ''hi''), (''time'', JStr ''t1''), (''isFile'', JBool True),
                    (''fileId'', JStr ''f1''), (''isVoice'', JBool True)]) ''receiverId'')
       = Inr ''e1-u1''
   \<and> sendMessage \<lparr>getTime = 5, dateText = ''d5''\<rparr>
        \<lparr>getTime = 6, dateText = ''d6''\<rparr>
        \<lparr>userSocketMap = [(''u1'', ''s1'')], expertSocketMap = [(''e1'', ''s2'')]\<rparr>
        (JObj [(''_id'', JStr ''m1''), (''senderId'', JStr ''u1''), (''receiverId'', JStr ''e1''),
               (''text'', JStr ''hi''), (''time'', JStr ''t1''), (''isFile'', JBool True),
               (''fileId'', JStr ''f1''), (''isVoice'', JBool True)])
       = Inr [Emit (To ''s2'') ''newMessage''
                (newMessage \<lparr>getTime = 5, dateText = ''d5''\<rparr> \<lparr>getTime = 6, dateText = ''d6''\<rparr>
                  (JObj [(''_id'', JStr ''m1''), (''senderId'', JStr ''u1''), (''receiverId'', JStr ''e1''),
                         (''text'', JStr ''hi''), (''time'', JStr ''t1''), (''isFile'', JBool True),
                         (''fileId'', JStr ''f1''), (''isVoice'', JBool True)]))]
   \<and> property (newMessage \<lparr>getTime = 5, dateText = ''d5''\<rparr> \<lparr>getTime = 6, dateText = ''d6''\<rparr>
          (JObj [(''_id'', JStr ''m1''), (''senderId'', JStr ''u1''), (''receiverId'', JStr ''e1''),
                 (''text'', JStr ''hi''), (''time'', JStr ''t1''), (''isFile'', JBool True),
                 (''fileId'', JStr ''f1''), (''isVoice'', JBool True)])) ''_id'' = JStr ''m1''
   \<and> messageEdited \<lparr>userSocketMap = [(''u1'', ''s1'')], expertSocketMap = [(''e1'', ''s2'')]\<rparr>
        (JObj [(''_id'', JStr ''m1''), (''senderId'', JStr ''u1''), (''receiverId'', JStr ''e1''),
               (''text'', JStr ''hi''), (''time'', JStr ''t1''), (''isFile'', JBool True),
               (''fileId'', JStr ''f1''), (''isVoice'', JBool True)])
       = Inr [Emit (To ''s2'') ''messageEdited''
                (JObj [(''_id'', JStr ''m1''), (''senderId'', JStr ''u1''), (''receiverId'', JStr ''e1''),
                       (''text'', JStr ''hi''), (''time'', JStr ''t1''), (''isFile'', JBool True),
                       (''fileId'', JStr ''f1''), (''isVoice'', JBool True)])]
   \<and> conversationDeleted
        (JObj [(''_id'', JStr ''m1''), (''senderId'', JStr ''u1''), (''receiverId'', JStr ''e1''),
               (''text'', JStr ''hi''), (''time'', JStr ''t1''), (''isFile'', JBool True),
               (''fileId'', JStr ''f1''), (''isVoice'', JBool True)])
       = Inr [Emit (To ''e1-u1'') ''conversationDeleted''
                (JObj [(''_id'', JStr ''m1''), (''senderId'', JStr ''u1''), (''receiverId'', JStr ''e1''),
                       (''text'', JStr ''hi''), (''time'', JStr ''t1''), (''isFile'', JBool True),
                       (''fileId'', JStr ''f1''), (''isVoice'', JBool True)])]"
proof -
  let ?c1 = "\<lparr>getTime = 5, dateText = ''d5''\<rparr>"
  let ?c2 = "\<lparr>getTime = 6, dateText = ''d6''\<rparr>"
  let ?st = "\<lparr>userSocketMap = [(''u1'', ''s1'')], expertSocketMap = [(''e1'', ''s2'')]\<rparr>"
  let ?d = "JObj [(''_id'', JStr ''m1''), (''senderId'', JStr ''u1''), (''receiverId'', JStr ''e1''),
                  (''text'', JStr ''hi''), (''time'', JStr ''t1''), (''isFile'', JBool True),
                  (''fileId'', JStr ''f1''), (''isVoice'', JBool True)]"
  have n: "\<not> nullish ?d" by (simp add: nullish_def)
  have r: "receiverSocketId ?st (property ?d ''receiverId'') = Inr (Value ''s2'')"
    by (simp add: property_def receiverSocketId_def read_or_def truthy_read_def read_member_def
        object_prototype_names_def)
  have h: "''s2'' \<noteq> []" by simp
  have k: "roomId (property ?d ''senderId'') (property ?d ''receiverId'') = Inr ''e1-u1''"
    by (simp add: property_def roomId_strings)
  note t = relay_payloads [of ?d ?st "''s2''" ?c1 ?c2 "''e1-u1''"]
  have i: "property ?d ''_id'' = JStr ''m1''" by (simp add: property_def)
  from t have "property (newMessage ?c1 ?c2 ?d) ''_id'' =
           (if truthy (property ?d ''_id'') then property ?d ''_id'' else JStr (show_nat (getTime ?c1)))"
    by blast
  then have p: "property (newMessage ?c1 ?c2 ?d) ''_id'' = JStr ''m1''"
    by (simp add: i)
  show ?thesis using n r h k t p by blast
qed

subsection \<open>The claims of the handshake\<close>

text \<open>
  C7, evaluated where it fails. A handshake claims the user identity \<^verbatim>\<open>__proto__\<close>
  and the expert identity \<^verbatim>\<open>e1\<close>. Both claims pass the guard; the expert identity
  is registered, the user identity is not, and the snapshot of the users that is
  broadcast does not hold it.
\<close>

theorem proto_claim_is_not_registered:
  "claimed (Some ''__proto__'') \<and> claimed (Some ''e1'')
   \<and> connection ''s1'' (Some ''__proto__'') (Some ''e1'') initial
     = (\<lparr>userSocketMap = [], expertSocketMap = [(''e1'', ''s1'')]\<rparr>,
        [Emit Everyone ''getOnlineUsers'' (JArr []),
         Emit Everyone ''getOnlineExperts'' (JArr [JStr ''e1''])])
   \<and> getReceiverSocketId \<lparr>userSocketMap = [], expertSocketMap = [(''e1'', ''s1'')]\<rparr> ''__proto__''
     = Inherited ''__proto__''
   \<and> getExpertSocketId \<lparr>userSocketMap = [], expertSocketMap = [(''e1'', ''s1'')]\<rparr> ''e1''
     = Value ''s1''"
  by (simp add: claimed_simps connection_def Let_def initial_def assign_def snapshot_def
      Object_keys_def is_array_index_def is_digit_def getReceiverSocketId_def
      getExpertSocketId_def read_member_def object_prototype_names_def)

text \<open>
  The handshake for every other identity. A claim counts when it is present, not empty
  and not the placeholder \<^verbatim>\<open>"undefined"\<close>. For each of the two claims on its own: a
  claim that does not count leaves the registry of its space as it was and
  broadcasts nothing for that space; a claim that counts, and is not \<^verbatim>\<open>__proto__\<close>,
  registers the connection under it; every claim that counts broadcasts the
  snapshot of exactly its space.
\<close>

lemma connection_registers_claims:
  "(claimed q \<longleftrightarrow> q \<noteq> None \<and> q \<noteq> Some [] \<and> q \<noteq> Some ''undefined'')
   \<and> (\<not> claimed u \<longrightarrow> userSocketMap (fst (connection sid u e st)) = userSocketMap st)
   \<and> (\<not> claimed e \<longrightarrow> expertSocketMap (fst (connection sid u e st)) = expertSocketMap st)
   \<and> (claimed u \<and> u \<noteq> Some ''__proto__'' \<longrightarrow>
        getReceiverSocketId (fst (connection sid u e st)) (the u) = Value sid)
   \<and> (claimed e \<and> e \<noteq> Some ''__proto__'' \<longrightarrow>
        getExpertSocketId (fst (connection sid u e st)) (the e) = Value sid)
   \<and> snd (connection sid u e st) =
        (if claimed u
         then [Emit Everyone ''getOnlineUsers'' (snapshot (userSocketMap (fst (connection sid u e st))))]
         else []) @
        (if claimed e
         then [Emit Everyone ''getOnlineExperts'' (snapshot (expertSocketMap (fst (connection sid u e st))))]
         else [])"
proof (intro conjI impI)
  show "claimed q \<longleftrightarrow> q \<noteq> None \<and> q \<noteq> Some [] \<and> q \<noteq> Some ''undefined''"
    by (cases q) (simp_all add: claimed_simps)
next
  assume "\<not> claimed u"
  then show "userSocketMap (fst (connection sid u e st)) = userSocketMap st"
    by (simp add: userSocketMap_connection)
next
  assume "\<not> claimed e"
  then show "expertSocketMap (fst (connection sid u e st)) = expertSocketMap st"
    by (simp add: expertSocketMap_connection)
next
  assume a: "claimed u \<and> u \<noteq> Some ''__proto__''"
  then obtain i where "u = Some i" by (cases u) (simp_all add: claimed_simps)
  with a show "getReceiverSocketId (fst (connection sid u e st)) (the u) = Value sid"
    by (simp add: getReceiverSocketId_def userSocketMap_connection read_member_assign_same)
next
  assume a: "claimed e \<and> e \<noteq> Some ''__proto__''"
  then obtain i where "e = Some i" by (cases e) (simp_all add: claimed_simps)
  with a show "getExpertSocketId (fst (connection sid u e st)) (the e) = Value sid"
    by (simp add: getExpertSocketId_def expertSocketMap_connection read_member_assign_same)
next
  show "snd (connection sid u e st) =
        (if claimed u
         then [Emit Everyone ''getOnlineUsers'' (snapshot (userSocketMap (fst (connection sid u e st))))]
         else []) @
        (if claimed e
         then [Emit Everyone ''getOnlineExperts'' (snapshot (expertSocketMap (fst (connection sid u e st))))]
         else [])"
    by (rule snd_connection)
qed

subsection \<open>Room keys and the separator\<close>

text \<open>
  C8 as stated fails: the connection handler accepts and registers a token that
  contains the separator, and the two different pairs \<^verbatim>\<open>("a-b", "c")\<close> and
  \<^verbatim>\<open>("a", "b-c")\<close> of tokens it accepts have the same room key.
\<close>

theorem roomId_collision:
  "claimed (Some ''a-b'') \<and> claimed (Some ''c'') \<and> claimed (Some ''a'') \<and> claimed (Some ''b-c'')
   \<and> getExpertSocketId (fst (connection ''s1'' None (Some ''a-b'') initial)) ''a-b'' = Value ''s1''
   \<and> roomId (JStr ''a-b'') (JStr ''c'') = Inr ''a-b-c''
   \<and> roomId (JStr ''a'') (JStr ''b-c'') = Inr ''a-b-c''
   \<and> {''a-b'', ''c''} \<noteq> {''a'', ''b-c''}
   \<and> expertMessageEdited (JObj [(''senderId'', JStr ''a-b''), (''receiverId'', JStr ''c'')])
     = Inr [Emit (To ''a-b-c'') ''expertMessageEdited''
              (JObj [(''senderId'', JStr ''a-b''), (''receiverId'', JStr ''c'')])]
   \<and> expertMessageEdited (JObj [(''senderId'', JStr ''a''), (''receiverId'', JStr ''b-c'')])
     = Inr [Emit (To ''a-b-c'') ''expertMessageEdited''
              (JObj [(''senderId'', JStr ''a''), (''receiverId'', JStr ''b-c'')])]"
  by (simp add: claimed_simps getExpertSocketId_def expertSocketMap_connection initial_def
      assign_def read_member_def roomId_strings doubleton_eq_iff expertMessageEdited_def
      nullish_def property_def)

text \<open>
  C8, amended. On tokens that do not contain the separator \<^verbatim>\<open>-\<close> the room key
  determines the unordered pair: two pairs of such tokens with the same room key are
  the same pair.
\<close>

theorem roomId_injective_without_separator:
  assumes "CHR ''-'' \<notin> set a" and "CHR ''-'' \<notin> set b" and "CHR ''-'' \<notin> set c"
    and "CHR ''-'' \<notin> set d" and "roomId (JStr a) (JStr b) = roomId (JStr c) (JStr d)"
  shows "{a, b} = {c, d}"
proof -
  obtain x y where xy: "roomId (JStr a) (JStr b) = Inr (x @ ''-'' @ y)" "{a, b} = {x, y}"
    "CHR ''-'' \<notin> set x"
    using assms(1,2) by (cases "b < a") (auto simp: roomId_strings)
  obtain x' y' where xy': "roomId (JStr c) (JStr d) = Inr (x' @ ''-'' @ y')" "{c, d} = {x', y'}"
    "CHR ''-'' \<notin> set x'"
    using assms(3,4) by (cases "d < c") (auto simp: roomId_strings)
  from assms(5) xy(1) xy'(1) have "x @ ''-'' @ y = x' @ ''-'' @ y'" by simp
  with xy(3) xy'(3) have "x = x' \<and> y = y'" by (rule separator_split_unique)
  with xy(2) xy'(2) show ?thesis by simp
qed

theorem roomId_injective_without_separator_witness:
  "CHR ''-'' \<notin> set ''e1'' \<and> CHR ''-'' \<notin> set ''e2''
   \<and> roomId (JStr ''e1'') (JStr ''e2'') = roomId (JStr ''e2'') (JStr ''e1'')
   \<and> {''e1'', ''e2''} = {''e2'', ''e1''}"
proof -
  have a: "CHR ''-'' \<notin> set ''e1''" by simp
  have b: "CHR ''-'' \<notin> set ''e2''" by simp
  have r: "roomId (JStr ''e1'') (JStr ''e2'') = roomId (JStr ''e2'') (JStr ''e1'')"
    by (simp add: roomId_strings)
  from roomId_injective_without_separator [OF a b b a r] a b r show ?thesis by blast
qed

subsection \<open>The fields of allExpertMessagesDeleted\<close>

text \<open>
  C9 as stated fails: the payload that \<^verbatim>\<open>allExpertMessagesDeleted\<close> emits has the
  fields \<^verbatim>\<open>senderID\<close> and \<^verbatim>\<open>receiverID\<close> and no field \<^verbatim>\<open>senderId\<close> or \<^verbatim>\<open>receiverId\<close>,
  the names that \<^verbatim>\<open>allMessagesDeleted\<close> emits.
\<close>

theorem allExpertMessagesDeleted_field_names:
  "allExpertMessagesDeleted (JObj [(''senderID'', JStr ''a''), (''receiverID'', JStr ''b'')])
     = Inr [Emit (To ''a-b'') ''allExpertMessagesDeleted''
              (JObj [(''senderID'', JStr ''a''), (''receiverID'', JStr ''b'')])]
   \<and> property (JObj [(''senderID'', JStr ''a''), (''receiverID'', JStr ''b'')]) ''senderId'' = JUndefined
   \<and> property (JObj [(''senderID'', JStr ''a''), (''receiverID'', JStr ''b'')]) ''receiverId'' = JUndefined
   \<and> allMessagesDeleted \<lparr>userSocketMap = [], expertSocketMap = [(''b'', ''s2'')]\<rparr>
        (JObj [(''senderId'', JStr ''a''), (''receiverId'', JStr ''b'')])
     = Inr [Emit (To ''s2'') ''allMessagesDeleted''
              (JObj [(''senderId'', JStr ''a''), (''receiverId'', JStr ''b'')])]"
  by (simp add: allExpertMessagesDeleted_def allMessagesDeleted_def nullish_def property_def
      roomId_strings receiverSocketId_def read_or_def truthy_read_def read_member_def
      object_prototype_names_def emit_to_def)

text \<open>
  C9, amended. An inbound \<^verbatim>\<open>allExpertMessagesDeleted\<close> event carries the identities
  \<open>a\<close> and \<open>b\<close> in its fields \<^verbatim>\<open>senderID\<close> and \<^verbatim>\<open>receiverID\<close>. The relay emits one
  \<^verbatim>\<open>allExpertMessagesDeleted\<close> event to the room keyed by the sorted pair of \<open>a\<close> and
  \<open>b\<close>, with exactly the two fields \<^verbatim>\<open>senderID\<close> and \<^verbatim>\<open>receiverID\<close> holding them.
\<close>

theorem allExpertMessagesDeleted_payload:
  assumes "property d ''senderID'' = JStr a" and "property d ''receiverID'' = JStr b"
  shows "allExpertMessagesDeleted d =
           Inr [Emit (To (if b < a then b @ ''-'' @ a else a @ ''-'' @ b)) ''allExpertMessagesDeleted''
                  (JObj [(''senderID'', JStr a), (''receiverID'', JStr b)])]"
proof -
  have "property JUndefined ''senderID'' = JUndefined" "property JNull ''senderID'' = JUndefined"
    by (simp_all add: property_def)
  with assms(1) have n: "\<not> nullish d" by (auto simp: nullish_def)
  then show ?thesis
    by (simp add: allExpertMessagesDeleted_def assms roomId_strings)
qed

theorem allExpertMessagesDeleted_payload_witness:
  "property (JObj [(''senderID'', JStr ''e2''), (''receiverID'', JStr ''e1'')]) ''senderID'' = JStr ''e2''
   \<and> property (JObj [(''senderID'', JStr ''e2''), (''receiverID'', JStr ''e1'')]) ''receiverID'' = JStr ''e1''
   \<and> allExpertMessagesDeleted (JObj [(''senderID'', JStr ''e2''), (''receiverID'', JStr ''e1'')])
     = Inr [Emit (To ''e1-e2'') ''allExpertMessagesDeleted''
              (JObj [(''senderID'', JStr ''e2''), (''receiverID'', JStr ''e1'')])]"
proof -
  let ?d = "JObj [(''senderID'', JStr ''e2''), (''receiverID'', JStr ''e1'')]"
  have s: "property ?d ''senderID'' = JStr ''e2''" by (simp add: property_def)
  have r: "property ?d ''receiverID'' = JStr ''e1''" by (simp add: property_def)
  have l: "''e1'' < ''e2''" by simp
  from allExpertMessagesDeleted_payload [OF s r] l s r show ?thesis by simp
qed

subsection \<open>The lookup exported to the HTTP handlers\<close>

text \<open>
  C10. \<^verbatim>\<open>getReceiverSocketId\<close> reads the user registry only. For an identity that is
  registered in the expert registry and is no key of the user registry it gives no
  handle: it gives \<^verbatim>\<open>undefined\<close>, or the inherited member for a name of the prototype.
  The confirmation of \<^verbatim>\<open>deleteFileExpert\<close> to such a sender is then addressed to no
  handle, in the statement that emits it and in every run of the handler; when the
  identity is no name of the prototype, no run of the handler emits a
  confirmation at all. The confirmation is emitted to the handle found when the
  identity is registered in the user registry, by the handler once all its checks
  have passed.
\<close>

theorem getReceiverSocketId_user_space_only:
  "(getExpertSocketId st i = Value h \<and> i \<notin> set (Object_keys (userSocketMap st)) \<longrightarrow>
      getReceiverSocketId st i = (if i \<in> set object_prototype_names then Inherited i else Undefined)
      \<and> getReceiverSocketId st i \<noteq> Value h'
      \<and> deleteFileExpert_confirmation st i fileId deleteType now =
          (if i \<in> set object_prototype_names
           then [Emit (ToInherited i) ''expertFileDeleteConfirmation''
                   (JObj [(''messageId'', fileId), (''status'', JStr ''deleted''),
                          (''deleteType'', deleteType), (''timestamp'', now)])]
           else [])
      \<and> (req_expert_id req = Identity i \<longrightarrow>
          list_all (\<lambda>e. event_of e = ''expertFileDeleteConfirmation'' \<longrightarrow> target_of e = ToInherited i)
            (snd (deleteFileExpert isValid c st req)))
      \<and> (req_expert_id req = Identity i \<and> i \<notin> set object_prototype_names \<longrightarrow>
          list_all (\<lambda>e. event_of e \<noteq> ''expertFileDeleteConfirmation'')
            (snd (deleteFileExpert isValid c st req))))
   \<and> (getReceiverSocketId st i = Value h' \<and> h' \<noteq> [] \<longrightarrow>
      deleteFileExpert_confirmation st i fileId deleteType now =
        [Emit (To h') ''expertFileDeleteConfirmation''
           (JObj [(''messageId'', fileId), (''status'', JStr ''deleted''),
                  (''deleteType'', deleteType), (''timestamp'', now)])])
   \<and> (getReceiverSocketId st i = Value h' \<and> h' \<noteq> [] \<and> req_expert_id req = Identity i
        \<and> \<not> nullish (body req) \<and> params_fileId req = Some f \<and> f \<noteq> [] \<and> isValid f
        \<and> findFile req = Answer (Some fileDoc) \<and> doc_senderId fileDoc = Some i
        \<and> doc_receiverId fileDoc = Some r
        \<and> findExpert req = Answer (Some senderExpert)
        \<and> deletionResult req = Answer (deletedCount, modifiedCount)
        \<and> (deletedCount \<noteq> Some 0 \<or> modifiedCount \<noteq> Some 0) \<longrightarrow>
      (\<exists>out. deleteFileExpert isValid c st req =
         (200, out @ [Emit (To h') ''expertFileDeleteConfirmation''
                        (JObj [(''messageId'', JStr f), (''status'', JStr ''deleted''),
                               (''deleteType'',
                                  js_or (property (body req) ''deleteType'') (JStr ''soft'')),
                               (''timestamp'', newDate c)])])))"
proof (intro conjI impI)
  assume a: "getExpertSocketId st i = Value h \<and> i \<notin> set (Object_keys (userSocketMap st))"
  then have "i \<notin> fst ` set (userSocketMap st)" by (simp add: set_Object_keys)
  then have m: "map_of (userSocketMap st) i = None" by (simp add: map_of_eq_None_iff)
  then show r: "getReceiverSocketId st i
                = (if i \<in> set object_prototype_names then Inherited i else Undefined)"
    unfolding getReceiverSocketId_def by (rule read_member_absent)
  then show "getReceiverSocketId st i \<noteq> Value h'" by simp
  show c: "deleteFileExpert_confirmation st i fileId deleteType now =
          (if i \<in> set object_prototype_names
           then [Emit (ToInherited i) ''expertFileDeleteConfirmation''
                   (JObj [(''messageId'', fileId), (''status'', JStr ''deleted''),
                          (''deleteType'', deleteType), (''timestamp'', now)])]
           else [])" for fileId deleteType now
    by (simp add: deleteFileExpert_confirmation_def r emit_to_simps)
  assume e: "req_expert_id req = Identity i"
  have k: "list_all (\<lambda>e. event_of e = ''expertFileDeleteConfirmation'' \<longrightarrow> target_of e = ToInherited i)
             (deleteFileExpert_confirmation st i f t n)" for f t n
    by (simp add: c)
  from deleteFileExpert_emissions [of isValid c st req]
  show "list_all (\<lambda>e. event_of e = ''expertFileDeleteConfirmation'' \<longrightarrow> target_of e = ToInherited i)
          (snd (deleteFileExpert isValid c st req))"
  proof
    assume "snd (deleteFileExpert isValid c st req) = []"
    then show ?thesis by simp
  next
    assume "\<exists>out expertId fileId deleteType.
         req_expert_id req = Identity expertId
         \<and> snd (deleteFileExpert isValid c st req) =
             out @ deleteFileExpert_confirmation st expertId fileId deleteType (newDate c)
         \<and> list_all (\<lambda>e. event_of e \<noteq> ''expertFileDeleteConfirmation'') out"
    then obtain out f t where o: "snd (deleteFileExpert isValid c st req) =
           out @ deleteFileExpert_confirmation st i f t (newDate c)"
      and l: "list_all (\<lambda>e. event_of e \<noteq> ''expertFileDeleteConfirmation'') out"
      using e by auto
    from l have "list_all (\<lambda>e. event_of e = ''expertFileDeleteConfirmation'' \<longrightarrow> target_of e = ToInherited i) out"
      by (simp add: list_all_iff)
    with k [of f t "newDate c"] show ?thesis
      unfolding o by simp
  qed
next
  assume a: "getExpertSocketId st i = Value h \<and> i \<notin> set (Object_keys (userSocketMap st))"
  assume e: "req_expert_id req = Identity i \<and> i \<notin> set object_prototype_names"
  from a have "i \<notin> fst ` set (userSocketMap st)" by (simp add: set_Object_keys)
  then have "map_of (userSocketMap st) i = None" by (simp add: map_of_eq_None_iff)
  then have "getReceiverSocketId st i
             = (if i \<in> set object_prototype_names then Inherited i else Undefined)"
    unfolding getReceiverSocketId_def by (rule read_member_absent)
  with e have r: "getReceiverSocketId st i = Undefined" by simp
  have k: "deleteFileExpert_confirmation st i f t n = []" for f t n
    by (simp add: deleteFileExpert_confirmation_def r emit_to_simps)
  from deleteFileExpert_emissions [of isValid c st req]
  show "list_all (\<lambda>e. event_of e \<noteq> ''expertFileDeleteConfirmation'')
          (snd (deleteFileExpert isValid c st req))"
  proof
    assume "snd (deleteFileExpert isValid c st req) = []"
    then show ?thesis by simp
  next
    assume "\<exists>out expertId fileId deleteType.
         req_expert_id req = Identity expertId
         \<and> snd (deleteFileExpert isValid c st req) =
             out @ deleteFileExpert_confirmation st expertId fileId deleteType (newDate c)
         \<and> list_all (\<lambda>e. event_of e \<noteq> ''expertFileDeleteConfirmation'') out"
    then obtain out f t where o: "snd (deleteFileExpert isValid c st req) =
           out @ deleteFileExpert_confirmation st i f t (newDate c)"
      and l: "list_all (\<lambda>e. event_of e \<noteq> ''expertFileDeleteConfirmation'') out"
      using e by auto
    from l show ?thesis unfolding o k by simp
  qed
next
  assume "getReceiverSocketId st i = Value h' \<and> h' \<noteq> []"
  then show "deleteFileExpert_confirmation st i fileId deleteType now =
        [Emit (To h') ''expertFileDeleteConfirmation''
           (JObj [(''messageId'', fileId), (''status'', JStr ''deleted''),
                  (''deleteType'', deleteType), (''timestamp'', now)])]"
    by (simp add: deleteFileExpert_confirmation_def emit_to_simps)
next
  assume a: "getReceiverSocketId st i = Value h' \<and> h' \<noteq> [] \<and> req_expert_id req = Identity i
        \<and> \<not> nullish (body req) \<and> params_fileId req = Some f \<and> f \<noteq> [] \<and> isValid f
        \<and> findFile req = Answer (Some fileDoc) \<and> doc_senderId fileDoc = Some i
        \<and> doc_receiverId fileDoc = Some r
        \<and> findExpert req = Answer (Some senderExpert)
        \<and> deletionResult req = Answer (deletedCount, modifiedCount)
        \<and> (deletedCount \<noteq> Some 0 \<or> modifiedCount \<noteq> Some 0)"
  obtain out where o: "deleteFileExpert_notifications i r fileDoc senderExpert (JStr f)
      (js_or (property (body req) ''deleteType'') (JStr ''soft'')) (newDate c) = Inr out"
    by (simp add: deleteFileExpert_notifications_def roomId_strings)
  have "deleteFileExpert isValid c st req =
         (200, out @ [Emit (To h') ''expertFileDeleteConfirmation''
                        (JObj [(''messageId'', JStr f), (''status'', JStr ''deleted''),
                               (''deleteType'',
                                  js_or (property (body req) ''deleteType'') (JStr ''soft'')),
                               (''timestamp'', newDate c)])])"
    using a o
    by (auto simp: deleteFileExpert_def Let_def given_simps deleteFileExpert_confirmation_def
        emit_to_simps)
  then show "\<exists>out. deleteFileExpert isValid c st req =
         (200, out @ [Emit (To h') ''expertFileDeleteConfirmation''
                        (JObj [(''messageId'', JStr f), (''status'', JStr ''deleted''),
                               (''deleteType'',
                                  js_or (property (body req) ''deleteType'') (JStr ''soft'')),
                               (''timestamp'', newDate c)])])"
    by blast
qed

theorem getReceiverSocketId_user_space_only_witness:
  "getExpertSocketId \<lparr>userSocketMap = [(''65a1b2c3d4e5f60718293a4b'', ''s1'')], expertSocketMap = [(''65a1b2c3d4e5f60718293a4c'', ''s2'')]\<rparr> ''65a1b2c3d4e5f60718293a4c''
     = Value ''s2''
   \<and> ''65a1b2c3d4e5f60718293a4c'' \<notin> set (Object_keys (userSocketMap
        \<lparr>userSocketMap = [(''65a1b2c3d4e5f60718293a4b'', ''s1'')], expertSocketMap = [(''65a1b2c3d4e5f60718293a4c'', ''s2'')]\<rparr>))
   \<and> getReceiverSocketId \<lparr>userSocketMap = [(''65a1b2c3d4e5f60718293a4b'', ''s1'')], expertSocketMap = [(''65a1b2c3d4e5f60718293a4c'', ''s2'')]\<rparr>
        ''65a1b2c3d4e5f60718293a4c'' = Undefined
   \<and> deleteFileExpert_confirmation
        \<lparr>userSocketMap = [(''65a1b2c3d4e5f60718293a4b'', ''s1'')], expertSocketMap = [(''65a1b2c3d4e5f60718293a4c'', ''s2'')]\<rparr>
        ''65a1b2c3d4e5f60718293a4c'' (JStr ''65a1b2c3d4e5f60718293a4d'') (JStr ''soft'') (JDate 7 ''d7'') = []
   \<and> list_all (\<lambda>e. event_of e \<noteq> ''expertFileDeleteConfirmation'')
        (snd (deleteFileExpert (\<lambda>s. length s = 24) \<lparr>getTime = 7, dateText = ''d7''\<rparr>
           \<lparr>userSocketMap = [(''65a1b2c3d4e5f60718293a4b'', ''s1'')], expertSocketMap = [(''65a1b2c3d4e5f60718293a4c'', ''s2'')]\<rparr>
           \<lparr>params_fileId = Some ''65a1b2c3d4e5f60718293a4d'', body = JObj [], req_expert_id = Identity ''65a1b2c3d4e5f60718293a4c'',
            findFile = Answer (Some \<lparr>doc_senderId = Some ''65a1b2c3d4e5f60718293a4c'', doc_receiverId = Some ''65a1b2c3d4e5f60718293a4e'',
                                        doc_originalName = JStr ''a.txt''\<rparr>),
            findExpert = Answer (Some \<lparr>expert_id = ''65a1b2c3d4e5f60718293a4c'', expert_name = JStr ''E'',
                                          expert_specialization = JStr ''x''\<rparr>),
            deletionResult = Answer (None, Some 1)\<rparr>))
   \<and> getReceiverSocketId \<lparr>userSocketMap = [(''65a1b2c3d4e5f60718293a4b'', ''s1'')], expertSocketMap = [(''65a1b2c3d4e5f60718293a4c'', ''s2'')]\<rparr>
        ''65a1b2c3d4e5f60718293a4b'' = Value ''s1''
   \<and> ''s1'' \<noteq> []
   \<and> deleteFileExpert_confirmation
        \<lparr>userSocketMap = [(''65a1b2c3d4e5f60718293a4b'', ''s1'')], expertSocketMap = [(''65a1b2c3d4e5f60718293a4c'', ''s2'')]\<rparr>
        ''65a1b2c3d4e5f60718293a4b'' (JStr ''65a1b2c3d4e5f60718293a4d'') (JStr ''soft'') (JDate 7 ''d7'')
      = [Emit (To ''s1'') ''expertFileDeleteConfirmation''
           (JObj [(''messageId'', JStr ''65a1b2c3d4e5f60718293a4d''), (''status'', JStr ''deleted''),
                  (''deleteType'', JStr ''soft''), (''timestamp'', JDate 7 ''d7'')])]
   \<and> (\<exists>out. deleteFileExpert (\<lambda>s. length s = 24) \<lparr>getTime = 7, dateText = ''d7''\<rparr>
           \<lparr>userSocketMap = [(''65a1b2c3d4e5f60718293a4b'', ''s1'')], expertSocketMap = [(''65a1b2c3d4e5f60718293a4c'', ''s2'')]\<rparr>
           \<lparr>params_fileId = Some ''65a1b2c3d4e5f60718293a4d'', body = JObj [], req_expert_id = Identity ''65a1b2c3d4e5f60718293a4b'',
            findFile = Answer (Some \<lparr>doc_senderId = Some ''65a1b2c3d4e5f60718293a4b'', doc_receiverId = Some ''65a1b2c3d4e5f60718293a4e'',
                                        doc_originalName = JStr ''a.txt''\<rparr>),
            findExpert = Answer (Some \<lparr>expert_id = ''65a1b2c3d4e5f60718293a4b'', expert_name = JStr ''E'',
                                          expert_specialization = JStr ''x''\<rparr>),
            deletionResult = Answer (None, Some 1)\<rparr>
         = (200, out @ [Emit (To ''s1'') ''expertFileDeleteConfirmation''
                          (JObj [(''messageId'', JStr ''65a1b2c3d4e5f60718293a4d''), (''status'', JStr ''deleted''),
                                 (''deleteType'', JStr ''soft''),
                                 (''timestamp'', JDate 7 ''d7'')])]))"
proof -
  let ?st = "\<lparr>userSocketMap = [(''65a1b2c3d4e5f60718293a4b'', ''s1'')], expertSocketMap = [(''65a1b2c3d4e5f60718293a4c'', ''s2'')]\<rparr>"
  let ?c = "\<lparr>getTime = 7, dateText = ''d7''\<rparr>"
  let ?req = "\<lparr>params_fileId = Some ''65a1b2c3d4e5f60718293a4d'', body = JObj [], req_expert_id = Identity ''65a1b2c3d4e5f60718293a4c'',
            findFile = Answer (Some \<lparr>doc_senderId = Some ''65a1b2c3d4e5f60718293a4c'', doc_receiverId = Some ''65a1b2c3d4e5f60718293a4e'',
                                        doc_originalName = JStr ''a.txt''\<rparr>),
            findExpert = Answer (Some \<lparr>expert_id = ''65a1b2c3d4e5f60718293a4c'', expert_name = JStr ''E'',
                                          expert_specialization = JStr ''x''\<rparr>),
            deletionResult = Answer (None, Some 1)\<rparr>"
  have e: "getExpertSocketId ?st ''65a1b2c3d4e5f60718293a4c'' = Value ''s2''"
    by (simp add: getExpertSocketId_def read_member_def)
  have k: "''65a1b2c3d4e5f60718293a4c'' \<notin> set (Object_keys (userSocketMap ?st))" by (simp add: set_Object_keys)
  have u: "getReceiverSocketId ?st ''65a1b2c3d4e5f60718293a4b'' = Value ''s1''"
    by (simp add: getReceiverSocketId_def read_member_def)
  have h: "''s1'' \<noteq> []" by simp
  have p: "''65a1b2c3d4e5f60718293a4c'' \<notin> set object_prototype_names" by (simp add: object_prototype_names_def)
  have q: "req_expert_id ?req = Identity ''65a1b2c3d4e5f60718293a4c''" by simp
  note t = getReceiverSocketId_user_space_only [where st = "?st" and i = "''65a1b2c3d4e5f60718293a4c''" and h = "''s2''"
      and req = "?req" and isValid = "\<lambda>s. length s = 24" and c = "?c" and fileId = "JStr ''65a1b2c3d4e5f60718293a4d''"
      and deleteType = "JStr ''soft''" and now = "JDate 7 ''d7''"]
  have a: "getReceiverSocketId ?st ''65a1b2c3d4e5f60718293a4c'' = Undefined
      \<and> deleteFileExpert_confirmation ?st ''65a1b2c3d4e5f60718293a4c'' (JStr ''65a1b2c3d4e5f60718293a4d'') (JStr ''soft'') (JDate 7 ''d7'') = []"
    using t e k p by simp
  have l: "list_all (\<lambda>e. event_of e \<noteq> ''expertFileDeleteConfirmation'')
          (snd (deleteFileExpert (\<lambda>s. length s = 24) ?c ?st ?req))"
    using t e k q p by blast
  have b: "deleteFileExpert_confirmation ?st ''65a1b2c3d4e5f60718293a4b'' (JStr ''65a1b2c3d4e5f60718293a4d'') (JStr ''soft'') (JDate 7 ''d7'')
      = [Emit (To ''s1'') ''expertFileDeleteConfirmation''
           (JObj [(''messageId'', JStr ''65a1b2c3d4e5f60718293a4d''), (''status'', JStr ''deleted''),
                  (''deleteType'', JStr ''soft''), (''timestamp'', JDate 7 ''d7'')])]"
    using getReceiverSocketId_user_space_only [where st = "?st" and i = "''65a1b2c3d4e5f60718293a4b''" and h' = "''s1''"] u h
    by blast
  let ?req' = "\<lparr>params_fileId = Some ''65a1b2c3d4e5f60718293a4d'', body = JObj [], req_expert_id = Identity ''65a1b2c3d4e5f60718293a4b'',
            findFile = Answer (Some \<lparr>doc_senderId = Some ''65a1b2c3d4e5f60718293a4b'', doc_receiverId = Some ''65a1b2c3d4e5f60718293a4e'',
                                        doc_originalName = JStr ''a.txt''\<rparr>),
            findExpert = Answer (Some \<lparr>expert_id = ''65a1b2c3d4e5f60718293a4b'', expert_name = JStr ''E'',
                                          expert_specialization = JStr ''x''\<rparr>),
            deletionResult = Answer (None, Some 1)\<rparr>"
  have "\<exists>out. deleteFileExpert (\<lambda>s. length s = 24) ?c ?st ?req' =
         (200, out @ [Emit (To ''s1'') ''expertFileDeleteConfirmation''
                        (JObj [(''messageId'', JStr ''65a1b2c3d4e5f60718293a4d''), (''status'', JStr ''deleted''),
                               (''deleteType'',
                                  js_or (property (body ?req') ''deleteType'') (JStr ''soft'')),
                               (''timestamp'', newDate ?c)])])"
    using getReceiverSocketId_user_space_only [where st = "?st" and i = "''65a1b2c3d4e5f60718293a4b''" and h' = "''s1''"
        and req = "?req'" and isValid = "\<lambda>s. length s = 24" and c = "?c" and f = "''65a1b2c3d4e5f60718293a4d''"
        and fileDoc = "\<lparr>doc_senderId = Some ''65a1b2c3d4e5f60718293a4b'', doc_receiverId = Some ''65a1b2c3d4e5f60718293a4e'',
                                        doc_originalName = JStr ''a.txt''\<rparr>"
        and senderExpert = "\<lparr>expert_id = ''65a1b2c3d4e5f60718293a4b'', expert_name = JStr ''E'',
                                          expert_specialization = JStr ''x''\<rparr>"
        and deletedCount = None and modifiedCount = "Some 1" and r = "''65a1b2c3d4e5f60718293a4e''"] u h
    by (simp add: nullish_def)
  then have s: "\<exists>out. deleteFileExpert (\<lambda>s. length s = 24) ?c ?st ?req' =
         (200, out @ [Emit (To ''s1'') ''expertFileDeleteConfirmation''
                        (JObj [(''messageId'', JStr ''65a1b2c3d4e5f60718293a4d''), (''status'', JStr ''deleted''),
                               (''deleteType'', JStr ''soft''),
                               (''timestamp'', JDate 7 ''d7'')])])"
    by (simp add: property_def js_or_def newDate_def)
  show ?thesis using e k u h a l b s by blast
qed

end
